theory Spec2Isabelle
  imports Main "HOL-Library.Sublist"
begin

section \<open>Python strings\<close>

text \<open>
  A Python \<open>str\<close> is a sequence of Unicode code points, and \<open>len\<close> counts code points,
  so a string is modelled as the list of its code points. \<open>lit\<close> embeds an ASCII literal.
\<close>

type_synonym pystr = "nat list"

definition lit :: "string \<Rightarrow> pystr" where
  "lit s = map of_char s"

text \<open>The characters \<open>str.strip()\<close> removes: the code points for which \<open>str.isspace\<close> holds.\<close>

definition py_isspace :: "nat \<Rightarrow> bool" where
  "py_isspace c =
     (c \<in> {9, 10, 11, 12, 13, 28, 29, 30, 31, 32, 133, 160, 5760, 8232, 8233, 8239, 8287, 12288}
      \<or> (8192 \<le> c \<and> c \<le> 8202))"

definition strip :: "pystr \<Rightarrow> pystr" where
  "strip s = rev (dropWhile py_isspace (rev (dropWhile py_isspace s)))"

definition startswith :: "pystr \<Rightarrow> pystr \<Rightarrow> bool" where
  "startswith s p = (take (length p) s = p)"

text \<open>
  \<open>s.replace(old, new)\<close>: every non-overlapping occurrence of \<open>old\<close>, found from the
  left, is replaced; an empty \<open>old\<close> matches before every character and at the end.
\<close>

function replace :: "pystr \<Rightarrow> pystr \<Rightarrow> pystr \<Rightarrow> pystr" where
  "replace old new s =
     (if old = [] then new @ concat (map (\<lambda>c. c # new) s)
      else if s = [] then []
      else if startswith s old then new @ replace old new (drop (length old) s)
      else hd s # replace old new (tl s))"
  by pat_completeness auto
termination
  by (relation "measure (\<lambda>(old, new, s). length s)") auto

declare replace.simps [simp del]

text \<open>\<open>sep.join(xs)\<close>.\<close>

fun join :: "pystr \<Rightarrow> pystr list \<Rightarrow> pystr" where
  "join sep [] = []"
| "join sep [x] = x"
| "join sep (x # y # ys) = x @ sep @ join sep (y # ys)"

text \<open>The decimal rendering of a non-negative integer inside an f-string.\<close>

function str_of_nat :: "nat \<Rightarrow> pystr" where
  "str_of_nat n = (if n < 10 then [48 + n] else str_of_nat (n div 10) @ [48 + n mod 10])"
  by pat_completeness auto
termination
  by (relation "measure id") auto

declare str_of_nat.simps [simp del]

text \<open>
  An exception caught by an \<open>except Exception as e\<close> clause is only ever formatted into a
  message (\<open>f"...{e}"\<close>), so inside a \<open>try\<close> block an exception is represented by \<open>str(e)\<close>.
  \<open>d[k]\<close> on a missing key raises \<open>KeyError(k)\<close>, whose \<open>str\<close> is the quoted key.
\<close>

definition getitem :: "'a option \<Rightarrow> string \<Rightarrow> pystr + 'a" where
  "getitem field k = (case field of None \<Rightarrow> Inl ([39] @ lit k @ [39]) | Some v \<Rightarrow> Inr v)"

definition no_attribute :: "string \<Rightarrow> string \<Rightarrow> pystr" where
  "no_attribute ty attr =
     [39] @ lit ty @ [39] @ lit '' object has no attribute '' @ [39] @ lit attr @ [39]"

section \<open>Result tables\<close>

text \<open>
  A pandas \<open>DataFrame\<close>: an index of \<open>index_len\<close> rows and named columns of cells.
  Only the operations the pipeline calls are modelled.
\<close>

datatype cell = NA | IntCell int | StrCell pystr

record 'a frame =
  index_len :: nat
  cols :: "(pystr \<times> 'a list) list"

type_synonym DataFrame = "cell frame"

definition len :: "'a frame \<Rightarrow> nat" where
  "len df = index_len df"

definition df_empty :: "'a frame \<Rightarrow> bool" where
  \<comment> \<open>\<open>df.empty\<close>: true when any axis has length 0\<close>
  "df_empty df = (index_len df = 0 \<or> cols df = [])"

definition isnull :: "DataFrame \<Rightarrow> bool frame" where
  "isnull df = \<lparr>index_len = index_len df,
                cols = map (\<lambda>(c, vs). (c, map (\<lambda>v. v = NA) vs)) (cols df)\<rparr>"

definition frame_all :: "bool frame \<Rightarrow> (pystr \<times> bool) list" where
  \<comment> \<open>\<open>DataFrame.all()\<close>: one boolean per column\<close>
  "frame_all df = map (\<lambda>(c, vs). (c, list_all (\<lambda>b. b) vs)) (cols df)"

definition series_all :: "(pystr \<times> bool) list \<Rightarrow> bool" where
  \<comment> \<open>\<open>Series.all()\<close>\<close>
  "series_all s = list_all snd s"

definition head :: "nat \<Rightarrow> 'a frame \<Rightarrow> 'a frame" where
  "head n df = \<lparr>index_len = min n (index_len df),
                cols = map (\<lambda>(c, vs). (c, take n vs)) (cols df)\<rparr>"

definition columns :: "'a frame \<Rightarrow> pystr list" where
  "columns df = map fst (cols df)"

section \<open>Workflow state\<close>

text \<open>
  \<open>GraphState\<close> is a \<open>TypedDict\<close>: a dictionary with the declared keys, any of which may be
  absent (\<open>GraphState()\<close> is the empty dictionary). \<open>result\<close> is declared \<open>str\<close> but holds
  either a string or the result table. A stage returns a dictionary with the keys it
  writes, and \<open>dict.update\<close> merges it into the state.
\<close>

datatype result_val = Text pystr | Table DataFrame

record GraphState =
  tables :: "pystr list option"
  schema :: "pystr option"
  question :: "pystr option"
  query :: "pystr option"
  result :: "result_val option"
  answer :: "pystr option"
  explanation :: "pystr option"
  dataviz_code :: "pystr option"
  has_results :: "bool option"

definition empty_dict :: GraphState where
  "empty_dict = \<lparr>tables = None, schema = None, question = None, query = None, result = None,
                  answer = None, explanation = None, dataviz_code = None, has_results = None\<rparr>"

definition override :: "'a option \<Rightarrow> 'a option \<Rightarrow> 'a option" where
  "override old new = (case new of None \<Rightarrow> old | Some v \<Rightarrow> Some v)"

definition dict_update :: "GraphState \<Rightarrow> GraphState \<Rightarrow> GraphState" where
  "dict_update st d =
     \<lparr>tables = override (tables st) (tables d),
      schema = override (schema st) (schema d),
      question = override (question st) (question d),
      query = override (query st) (query d),
      result = override (result st) (result d),
      answer = override (answer st) (answer d),
      explanation = override (explanation st) (explanation d),
      dataviz_code = override (dataviz_code st) (dataviz_code d),
      has_results = override (has_results st) (has_results d)\<rparr>"

definition keys :: "GraphState \<Rightarrow> string list" where
  "keys d =
     (if tables d = None then [] else [''tables'']) @
     (if schema d = None then [] else [''schema'']) @
     (if question d = None then [] else [''question'']) @
     (if query d = None then [] else [''query'']) @
     (if result d = None then [] else [''result'']) @
     (if answer d = None then [] else [''answer'']) @
     (if explanation d = None then [] else [''explanation'']) @
     (if dataviz_code d = None then [] else [''dataviz_code'']) @
     (if has_results d = None then [] else [''has_results''])"

section \<open>External collaborators\<close>

text \<open>
  A chain \<open>prompt | llm | StrOutputParser()\<close> is invoked with a dictionary of template
  arguments; it returns the model's text or raises. The data store runs a query and
  returns a table or raises. \<open>Inl\<close> carries \<open>str(e)\<close> of the exception raised.
\<close>

datatype template =
  write_query_system_prompt | answer_system_prompt | explain_system_prompt | dataviz_system_prompt

datatype prompt_arg = PStr pystr | PTable DataFrame | PStrs "pystr list"

type_synonym chat_model = "template \<Rightarrow> (string \<times> prompt_arg) list \<Rightarrow> pystr + pystr"

record database =
  run_query :: "pystr \<Rightarrow> pystr + DataFrame"
  get_tables :: "pystr list"
  get_schemas :: pystr

text \<open>
  What the process provides: the environment variable, the model \<open>init_chat_model\<close>
  returns, the module-level \<open>bigquery_db\<close>, and pandas' two renderings of a table
  (\<open>str(df)\<close> and \<open>df.to_string()\<close>).
\<close>

record runtime =
  GOOGLE_API_KEY :: "pystr option"
  init_chat_model :: chat_model
  bigquery_db :: database
  df_str :: "DataFrame \<Rightarrow> pystr"
  df_to_string :: "DataFrame \<Rightarrow> pystr"

text \<open>Exceptions that leave a function.\<close>

datatype exn = ValueError pystr | AttributeError pystr | Exception_dict GraphState

definition get_default_llm :: "runtime \<Rightarrow> exn + chat_model" where
  "get_default_llm rt =
     (case GOOGLE_API_KEY rt of
        None \<Rightarrow> Inl (ValueError (lit ''GOOGLE_API_KEY environment variable is required''))
      | Some api_key \<Rightarrow>
          if api_key = []
          then Inl (ValueError (lit ''GOOGLE_API_KEY environment variable is required''))
          else Inr (init_chat_model rt))"

definition get_default_db :: "runtime \<Rightarrow> database" where
  "get_default_db rt = bigquery_db rt"

definition llm_or_default :: "runtime \<Rightarrow> chat_model option \<Rightarrow> exn + chat_model" where
  \<comment> \<open>\<open>if llm is None: llm = get_default_llm()\<close>\<close>
  "llm_or_default rt llm = (case llm of None \<Rightarrow> get_default_llm rt | Some m \<Rightarrow> Inr m)"

section \<open>Stage functions\<close>

subsection \<open>Fenced code blocks\<close>

text \<open>
  The stripping \<open>write_query\<close> applies to the model's text (\<open>query.strip()\<close>, then the
  \<open>```sql\<close> test and the two \<open>replace\<close> calls), and the one \<open>create_visualization\<close> applies
  (the same with \<open>```python\<close>, and a further \<open>strip()\<close> at the \<open>return\<close>).
\<close>

definition strip_sql_fence :: "pystr \<Rightarrow> pystr" where
  "strip_sql_fence query0 =
     (let query = strip query0 in
      if startswith query (lit ''```sql'')
      then strip (replace (lit ''```'') [] (replace (lit ''```sql'') [] query))
      else query)"

definition strip_python_fence :: "pystr \<Rightarrow> pystr" where
  "strip_python_fence code0 =
     (let visualization_code = strip code0 in
      strip (if startswith visualization_code (lit ''```python'')
             then strip (replace (lit ''```'') []
                           (replace (lit ''```python'') [] visualization_code))
             else visualization_code))"

subsection \<open>write_query\<close>

definition write_query_try :: "chat_model \<Rightarrow> GraphState \<Rightarrow> pystr + GraphState" where
  "write_query_try llm state =
     (case getitem (question state) ''question'' of Inl e \<Rightarrow> Inl e | Inr q \<Rightarrow>
      case getitem (tables state) ''tables'' of Inl e \<Rightarrow> Inl e | Inr ts \<Rightarrow>
      case getitem (schema state) ''schema'' of Inl e \<Rightarrow> Inl e | Inr sc \<Rightarrow>
      case llm write_query_system_prompt
             [(''question'', PStr q), (''tables'', PStr (join [10] ts)), (''schema'', PStr sc)] of
        Inl e \<Rightarrow> Inl e
      | Inr text \<Rightarrow> Inr (empty_dict\<lparr>query := Some (strip_sql_fence text)\<rparr>))"

definition write_query :: "runtime \<Rightarrow> GraphState \<Rightarrow> chat_model option \<Rightarrow> exn + GraphState" where
  "write_query rt state llm =
     (case llm_or_default rt llm of
        Inl e \<Rightarrow> Inl e
      | Inr m \<Rightarrow>
          (case write_query_try m state of
             Inr d \<Rightarrow> Inr d
           | Inl e \<Rightarrow>
               Inl (Exception_dict
                      (empty_dict\<lparr>query := Some (lit ''-- Error generating query: '' @ e)\<rparr>))))"

subsection \<open>execute_query\<close>

definition execute_query :: "runtime \<Rightarrow> GraphState \<Rightarrow> database option \<Rightarrow> GraphState" where
  "execute_query rt state db0 =
     (let db = (case db0 of None \<Rightarrow> get_default_db rt | Some d \<Rightarrow> d) in
      case (case getitem (query state) ''query'' of Inl e \<Rightarrow> Inl e | Inr q \<Rightarrow> run_query db q) of
        Inr result_df \<Rightarrow>
          if \<not> df_empty result_df \<and> len result_df > 0
             \<and> \<not> series_all (frame_all (isnull result_df))
          then empty_dict\<lparr>result := Some (Table result_df), has_results := Some True\<rparr>
          else empty_dict\<lparr>result := Some (Text (lit ''Nenhum resultado encontrado.'')),
                          has_results := Some False\<rparr>
      | Inl e \<Rightarrow>
          empty_dict\<lparr>result := Some (Text (lit ''Error executing query: '' @ e)),
                     has_results := Some False\<rparr>)"

subsection \<open>generate_answer and explain_answer\<close>

definition str_result :: "runtime \<Rightarrow> result_val \<Rightarrow> pystr" where
  \<comment> \<open>\<open>str(state["result"])\<close>\<close>
  "str_result rt r = (case r of Text s \<Rightarrow> s | Table df \<Rightarrow> df_str rt df)"

text \<open>
  The value both stages bind to \<open>result_for_llm\<close>. A string has no \<open>head\<close>, so a string
  of more than 10000 characters raises \<open>AttributeError\<close> inside the \<open>try\<close>.
\<close>

definition result_for_llm :: "runtime \<Rightarrow> result_val \<Rightarrow> pystr + prompt_arg" where
  "result_for_llm rt r =
     (if length (str_result rt r) > 10000
      then (case r of
              Text s \<Rightarrow> Inl (no_attribute ''str'' ''head'')
            | Table df \<Rightarrow>
                (let truncated_result = df_to_string rt (head 100 df) in
                 Inr (PStr (lit ''Resultado truncado (primeiras 100 linhas de ''
                            @ str_of_nat (len df) @ lit '' total):'' @ [10]
                            @ truncated_result))))
      else Inr (case r of Text s \<Rightarrow> PStr s | Table df \<Rightarrow> PTable df))"

definition generate_answer_try :: "runtime \<Rightarrow> chat_model \<Rightarrow> GraphState \<Rightarrow> pystr + GraphState" where
  "generate_answer_try rt llm state =
     (case getitem (result state) ''result'' of Inl e \<Rightarrow> Inl e | Inr r \<Rightarrow>
      case result_for_llm rt r of Inl e \<Rightarrow> Inl e | Inr shown \<Rightarrow>
      case getitem (question state) ''question'' of Inl e \<Rightarrow> Inl e | Inr q \<Rightarrow>
      case getitem (query state) ''query'' of Inl e \<Rightarrow> Inl e | Inr sql \<Rightarrow>
      case llm answer_system_prompt
             [(''question'', PStr q), (''query'', PStr sql), (''result'', shown)] of
        Inl e \<Rightarrow> Inl e
      | Inr text \<Rightarrow> Inr (empty_dict\<lparr>answer := Some (strip text)\<rparr>))"

definition generate_answer :: "runtime \<Rightarrow> GraphState \<Rightarrow> chat_model option \<Rightarrow> exn + GraphState" where
  "generate_answer rt state llm =
     (case llm_or_default rt llm of
        Inl e \<Rightarrow> Inl e
      | Inr m \<Rightarrow>
          Inr (case generate_answer_try rt m state of
                 Inr d \<Rightarrow> d
               | Inl e \<Rightarrow> empty_dict\<lparr>answer := Some (lit ''Error generating answer: '' @ e)\<rparr>))"

definition explain_answer_try :: "runtime \<Rightarrow> chat_model \<Rightarrow> GraphState \<Rightarrow> pystr + GraphState" where
  "explain_answer_try rt llm state =
     (case getitem (result state) ''result'' of Inl e \<Rightarrow> Inl e | Inr r \<Rightarrow>
      case result_for_llm rt r of Inl e \<Rightarrow> Inl e | Inr shown \<Rightarrow>
      case getitem (question state) ''question'' of Inl e \<Rightarrow> Inl e | Inr q \<Rightarrow>
      case getitem (query state) ''query'' of Inl e \<Rightarrow> Inl e | Inr sql \<Rightarrow>
      case getitem (answer state) ''answer'' of Inl e \<Rightarrow> Inl e | Inr a \<Rightarrow>
      case llm explain_system_prompt
             [(''question'', PStr q), (''query'', PStr sql), (''result'', shown),
              (''answer'', PStr a)] of
        Inl e \<Rightarrow> Inl e
      | Inr text \<Rightarrow> Inr (empty_dict\<lparr>explanation := Some (strip text)\<rparr>))"

definition explain_answer :: "runtime \<Rightarrow> GraphState \<Rightarrow> chat_model option \<Rightarrow> exn + GraphState" where
  "explain_answer rt state llm =
     (case llm_or_default rt llm of
        Inl e \<Rightarrow> Inl e
      | Inr m \<Rightarrow>
          Inr (case explain_answer_try rt m state of
                 Inr d \<Rightarrow> d
               | Inl e \<Rightarrow>
                   empty_dict\<lparr>explanation := Some (lit ''Error generating explanation: '' @ e)\<rparr>))"

subsection \<open>create_visualization\<close>

definition create_visualization_try ::
  "runtime \<Rightarrow> chat_model \<Rightarrow> GraphState \<Rightarrow> pystr + GraphState" where
  "create_visualization_try rt llm state =
     (case getitem (result state) ''result'' of Inl e \<Rightarrow> Inl e | Inr r \<Rightarrow>
      case r of
        Text s \<Rightarrow> Inl (no_attribute ''str'' ''empty'')
      | Table df \<Rightarrow>
          (let (cols_arg, result_for_viz) =
                 (if \<not> df_empty df
                  then (PStrs (map (\<lambda>col. [39] @ col @ [39] @ lit '', '') (columns df)),
                        lit ''Amostra dos dados (5 primeiras linhas):'' @ [10]
                        @ df_to_string rt (head 5 df))
                  else (PStr (lit ''No columns available''), df_str rt df))
           in
           case getitem (question state) ''question'' of Inl e \<Rightarrow> Inl e | Inr q \<Rightarrow>
           case getitem (query state) ''query'' of Inl e \<Rightarrow> Inl e | Inr sql \<Rightarrow>
           case llm dataviz_system_prompt
                  [(''question'', PStr q), (''query'', PStr sql),
                   (''result'', PStr result_for_viz), (''columns'', cols_arg)] of
             Inl e \<Rightarrow> Inl e
           | Inr text \<Rightarrow> Inr (empty_dict\<lparr>dataviz_code := Some (strip_python_fence text)\<rparr>)))"

definition create_visualization ::
  "runtime \<Rightarrow> GraphState \<Rightarrow> chat_model option \<Rightarrow> exn + GraphState" where
  "create_visualization rt state llm =
     (case llm_or_default rt llm of
        Inl e \<Rightarrow> Inl e
      | Inr m \<Rightarrow>
          Inr (case create_visualization_try rt m state of
                 Inr d \<Rightarrow> d
               | Inl e \<Rightarrow> empty_dict\<lparr>dataviz_code := Some (lit ''# Error: '' @ e)\<rparr>))"

subsection \<open>handle_no_results and the fork\<close>

text \<open>The message is \<open>A consulta SQL n\<tilde>ao retornou nenhum resultado.\<close>; 227 is a with tilde.\<close>

definition handle_no_results :: "GraphState \<Rightarrow> GraphState" where
  "handle_no_results state =
     empty_dict\<lparr>answer := Some (lit ''A consulta SQL n'' @ [227]
                                @ lit ''o retornou nenhum resultado.'')\<rparr>"

definition should_continue_workflow :: "GraphState \<Rightarrow> string" where
  \<comment> \<open>\<open>state.get("has_results", False)\<close>: the default stands in for an absent key\<close>
  "should_continue_workflow state =
     (if (case has_results state of None \<Rightarrow> False | Some b \<Rightarrow> b)
      then ''generate_answer'' else ''handle_no_results'')"

section \<open>The workflow graph\<close>

text \<open>
  \<open>create_sql_workflow\<close> builds a LangGraph \<open>StateGraph\<close>: named nodes, an entry point,
  plain edges, and one conditional edge whose router's answer is looked up in a mapping.
  The engine calls a node with the state alone, so \<open>llm\<close> and \<open>db\<close> take their default
  \<open>None\<close>.
\<close>

record StateGraph =
  nodes :: "(string \<times> (runtime \<Rightarrow> GraphState \<Rightarrow> exn + GraphState)) list"
  entry_point :: string
  edges :: "(string \<times> string) list"
  conditional_edges :: "(string \<times> (GraphState \<Rightarrow> string) \<times> (string \<times> string) list) list"

definition END :: string where
  "END = ''__end__''"

definition create_sql_workflow :: StateGraph where
  "create_sql_workflow =
     \<lparr>nodes =
        [(''write_query'', \<lambda>rt state. write_query rt state None),
         (''execute_query'', \<lambda>rt state. Inr (execute_query rt state None)),
         (''generate_answer'', \<lambda>rt state. generate_answer rt state None),
         (''explain_answer'', \<lambda>rt state. explain_answer rt state None),
         (''create_visualization'', \<lambda>rt state. create_visualization rt state None),
         (''handle_no_results'', \<lambda>rt state. Inr (handle_no_results state))],
      entry_point = ''write_query'',
      edges =
        [(''write_query'', ''execute_query''),
         (''generate_answer'', ''explain_answer''),
         (''explain_answer'', ''create_visualization''),
         (''create_visualization'', END),
         (''handle_no_results'', END)],
      conditional_edges =
        [(''execute_query'', should_continue_workflow,
          [(''generate_answer'', ''generate_answer''),
           (''handle_no_results'', ''handle_no_results'')])]\<rparr>"

text \<open>
  The engine that runs a compiled graph: it calls the current node, merges the returned
  dictionary into the state, and follows the node's conditional edge if it has one, else
  its plain edge, until \<open>END\<close>; an exception of a node ends the run, and so does the
  recursion limit (25 steps unless configured). \<open>stream\<close> yields, per node run, the node's
  name with the dictionary it returned.
\<close>

datatype run_error = Raised exn | GraphRecursionError | NoSuchNode string

definition next_node :: "StateGraph \<Rightarrow> string \<Rightarrow> GraphState \<Rightarrow> string option" where
  "next_node g n st =
     (case map_of (conditional_edges g) n of
        Some (router, mapping) \<Rightarrow> map_of mapping (router st)
      | None \<Rightarrow> map_of (edges g) n)"

fun stream_from ::
  "nat \<Rightarrow> StateGraph \<Rightarrow> runtime \<Rightarrow> string \<Rightarrow> GraphState
   \<Rightarrow> run_error + ((string \<times> GraphState) list \<times> GraphState)" where
  "stream_from 0 g rt n st = (if n = END then Inr ([], st) else Inl GraphRecursionError)"
| "stream_from (Suc limit) g rt n st =
     (if n = END then Inr ([], st)
      else case map_of (nodes g) n of
             None \<Rightarrow> Inl (NoSuchNode n)
           | Some f \<Rightarrow>
               (case f rt st of
                  Inl e \<Rightarrow> Inl (Raised e)
                | Inr d \<Rightarrow>
                    (case next_node g n (dict_update st d) of
                       None \<Rightarrow> Inl (NoSuchNode n)
                     | Some n' \<Rightarrow>
                         (case stream_from limit g rt n' (dict_update st d) of
                            Inl e \<Rightarrow> Inl e
                          | Inr (out, final) \<Rightarrow> Inr ((n, d) # out, final)))))"

definition stream ::
  "StateGraph \<Rightarrow> runtime \<Rightarrow> GraphState
   \<Rightarrow> run_error + ((string \<times> GraphState) list \<times> GraphState)" where
  "stream g rt initial_state = stream_from 25 g rt (entry_point g) initial_state"

section \<open>The orchestrator\<close>

text \<open>
  \<open>WorkflowOrchestrator\<close> keeps the model, the data store and the state of the current
  question. Each step method calls its stage on \<open>self.state\<close>, merges the returned
  dictionary with \<open>self.state.update\<close>, and returns one entry of that dictionary; the model
  of a step returns the whole dictionary together with the orchestrator after the update.
\<close>

record WorkflowOrchestrator =
  self_llm :: chat_model
  self_db :: database
  self_state :: GraphState

definition create_orchestrator ::
  "runtime \<Rightarrow> chat_model option \<Rightarrow> database option \<Rightarrow> exn + WorkflowOrchestrator" where
  "create_orchestrator rt llm db0 =
     (case llm_or_default rt llm of
        Inl e \<Rightarrow> Inl e
      | Inr m \<Rightarrow>
          Inr \<lparr>self_llm = m,
               self_db = (case db0 of None \<Rightarrow> get_default_db rt | Some d \<Rightarrow> d),
               self_state = empty_dict\<rparr>)"

definition initialize_state :: "WorkflowOrchestrator \<Rightarrow> pystr \<Rightarrow> WorkflowOrchestrator" where
  "initialize_state self q =
     self\<lparr>self_state :=
            \<lparr>tables = Some (get_tables (self_db self)),
             schema = Some (get_schemas (self_db self)),
             question = Some q,
             query = Some [],
             result = Some (Text []),
             answer = Some [],
             explanation = Some [],
             dataviz_code = Some [],
             has_results = Some False\<rparr>\<rparr>"

definition merged :: "WorkflowOrchestrator \<Rightarrow> GraphState \<Rightarrow> GraphState \<times> WorkflowOrchestrator" where
  \<comment> \<open>\<open>self.state.update(result)\<close>\<close>
  "merged self d = (d, self\<lparr>self_state := dict_update (self_state self) d\<rparr>)"

definition step_write_query ::
  "runtime \<Rightarrow> WorkflowOrchestrator \<Rightarrow> exn + (GraphState \<times> WorkflowOrchestrator)" where
  "step_write_query rt self =
     (case write_query rt (self_state self) (Some (self_llm self)) of
        Inl e \<Rightarrow> Inl e | Inr d \<Rightarrow> Inr (merged self d))"

definition step_execute_query ::
  "runtime \<Rightarrow> WorkflowOrchestrator \<Rightarrow> exn + (GraphState \<times> WorkflowOrchestrator)" where
  "step_execute_query rt self =
     Inr (merged self (execute_query rt (self_state self) (Some (self_db self))))"

definition step_generate_answer ::
  "runtime \<Rightarrow> WorkflowOrchestrator \<Rightarrow> exn + (GraphState \<times> WorkflowOrchestrator)" where
  "step_generate_answer rt self =
     (case generate_answer rt (self_state self) (Some (self_llm self)) of
        Inl e \<Rightarrow> Inl e | Inr d \<Rightarrow> Inr (merged self d))"

definition step_explain_answer ::
  "runtime \<Rightarrow> WorkflowOrchestrator \<Rightarrow> exn + (GraphState \<times> WorkflowOrchestrator)" where
  "step_explain_answer rt self =
     (case explain_answer rt (self_state self) (Some (self_llm self)) of
        Inl e \<Rightarrow> Inl e | Inr d \<Rightarrow> Inr (merged self d))"

definition step_create_visualization ::
  "runtime \<Rightarrow> WorkflowOrchestrator \<Rightarrow> exn + (GraphState \<times> WorkflowOrchestrator)" where
  "step_create_visualization rt self =
     (case create_visualization rt (self_state self) (Some (self_llm self)) of
        Inl e \<Rightarrow> Inl e | Inr d \<Rightarrow> Inr (merged self d))"

definition step_handle_no_results ::
  "WorkflowOrchestrator \<Rightarrow> exn + (GraphState \<times> WorkflowOrchestrator)" where
  "step_handle_no_results self = Inr (merged self (handle_no_results (self_state self)))"

text \<open>
  \<open>run_chainlit_workflow\<close>, as far as the state goes: the step methods it calls, in order,
  each with the dictionary merged. The messages it sends and the rendering of the chart
  read the state and leave it as it is. On the results branch the method reads
  \<open>result_df.empty\<close> first, which raises when \<open>result\<close> is not a table.
\<close>

definition after ::
  "exn + (GraphState \<times> WorkflowOrchestrator) \<Rightarrow> string
   \<Rightarrow> (WorkflowOrchestrator \<Rightarrow> exn + ((string \<times> GraphState) list \<times> WorkflowOrchestrator))
   \<Rightarrow> exn + ((string \<times> GraphState) list \<times> WorkflowOrchestrator)" where
  \<comment> \<open>sequencing: the step's exception ends the run, else the rest runs on the new \<open>self\<close>\<close>
  "after step name rest =
     (case step of
        Inl e \<Rightarrow> Inl e
      | Inr (d, self) \<Rightarrow>
          (case rest self of
             Inl e \<Rightarrow> Inl e
           | Inr (calls, final) \<Rightarrow> Inr ((name, d) # calls, final)))"

definition run_chainlit_workflow ::
  "runtime \<Rightarrow> WorkflowOrchestrator \<Rightarrow> pystr
   \<Rightarrow> exn + ((string \<times> GraphState) list \<times> WorkflowOrchestrator)" where
  "run_chainlit_workflow rt self0 q =
     after (step_write_query rt (initialize_state self0 q)) ''step_write_query'' (\<lambda>self1.
     after (step_execute_query rt self1) ''step_execute_query'' (\<lambda>self2.
       if (case has_results (self_state self2) of None \<Rightarrow> False | Some b \<Rightarrow> b)
       then (case result (self_state self2) of
               None \<Rightarrow> Inl (AttributeError (no_attribute ''NoneType'' ''empty''))
             | Some (Text s) \<Rightarrow> Inl (AttributeError (no_attribute ''str'' ''empty''))
             | Some (Table result_df) \<Rightarrow>
                 after (step_generate_answer rt self2) ''step_generate_answer'' (\<lambda>self3.
                 after (step_explain_answer rt self3) ''step_explain_answer'' (\<lambda>self4.
                 after (step_create_visualization rt self4) ''step_create_visualization''
                   (\<lambda>self5. Inr ([], self5)))))
       else after (step_handle_no_results self2) ''step_handle_no_results''
              (\<lambda>self3. Inr ([], self3))))"

section \<open>The chart renderer\<close>








section \<open>Test fixtures\<close>

text \<open>
  The state of \<open>TestWorkflow.setUp\<close> and the mocked data stores of
  \<open>test_execute_query_success\<close>, \<open>test_execute_query_empty\<close> and
  \<open>test_execute_query_error\<close>, with a mocked model in the same style and a runtime that
  hands them out as the defaults.
\<close>

definition test_state :: GraphState where
  "test_state =
     \<lparr>tables = Some [lit ''creditRisk.train''],
      schema = Some (lit ''Schema test''),
      question = Some (lit ''Test question''),
      query = Some (lit ''SELECT * FROM test''),
      result = Some (Table \<lparr>index_len = 3,
                             cols = [(lit ''col'', [IntCell 1, IntCell 2, IntCell 3])]\<rparr>),
      answer = Some (lit ''Test answer''),
      explanation = Some (lit ''Test explanation''),
      dataviz_code = Some (lit ''plt.plot([1,2,3])''),
      has_results = Some True\<rparr>"

definition mock_db :: "(pystr + DataFrame) \<Rightarrow> database" where
  \<comment> \<open>\<open>run_query.return_value\<close> or \<open>run_query.side_effect\<close>\<close>
  "mock_db r = \<lparr>run_query = (\<lambda>q. r), get_tables = [lit ''creditRisk.train''],
                 get_schemas = lit ''Schema test''\<rparr>"

definition count_table :: DataFrame where
  \<comment> \<open>\<open>pd.DataFrame({"count": [10]})\<close>\<close>
  "count_table = \<lparr>index_len = 1, cols = [(lit ''count'', [IntCell 10])]\<rparr>"

definition no_table :: DataFrame where
  \<comment> \<open>\<open>pd.DataFrame()\<close>\<close>
  "no_table = \<lparr>index_len = 0, cols = []\<rparr>"

definition mock_llm :: "(pystr + pystr) \<Rightarrow> chat_model" where
  "mock_llm r = (\<lambda>t args. r)"

definition test_runtime :: "chat_model \<Rightarrow> database \<Rightarrow> nat \<Rightarrow> runtime" where
  \<comment> \<open>the last argument is the number of characters every table renders to\<close>
  "test_runtime m db n =
     \<lparr>GOOGLE_API_KEY = Some (lit ''test_key''), init_chat_model = m, bigquery_db = db,
      df_str = (\<lambda>df. replicate n 46), df_to_string = (\<lambda>df. replicate n 46)\<rparr>"








text \<open>The number of leading backticks (code point 96) of a string.\<close>

definition lead :: "pystr \<Rightarrow> nat" where
  "lead s = length (takeWhile (\<lambda>c. c = 96) s)"

section \<open>Properties of the string operations\<close>

lemma startswith_prefix: "startswith s p = prefix p s"
proof
  assume "startswith s p"
  then have "s = p @ drop (length p) s"
    unfolding startswith_def by (metis append_take_drop_id)
  then show "prefix p s" unfolding prefix_def by blast
next
  assume "prefix p s"
  then show "startswith s p" by (auto simp: startswith_def prefix_def)
qed

lemma strip_fixed:
  assumes "s = [] \<or> (\<not> py_isspace (hd s) \<and> \<not> py_isspace (last s))"
  shows "strip s = s"
proof (cases "s = []")
  case True
  then show ?thesis by (simp add: strip_def)
next
  case False
  with assms have h: "\<not> py_isspace (hd s)" and l: "\<not> py_isspace (last s)" by auto
  from False h have "dropWhile py_isspace s = s" by (cases s) auto
  moreover from False l have "dropWhile py_isspace (rev s) = rev s"
    by (cases "rev s") (auto simp: last_rev hd_rev)
  ultimately show ?thesis by (simp add: strip_def)
qed


lemma rstrip_take:
  "rev (dropWhile P (rev a)) = take (length a - length (takeWhile P (rev a))) a"
proof -
  have "dropWhile P (rev a) = drop (length (takeWhile P (rev a))) (rev a)"
    by (rule dropWhile_eq_drop)
  then show ?thesis by (simp add: rev_drop)
qed

lemma strip_ends:
  "strip s = [] \<or> (\<not> py_isspace (hd (strip s)) \<and> \<not> py_isspace (last (strip s)))"
proof (cases "strip s = []")
  case True
  then show ?thesis by simp
next
  case False
  define a where "a = dropWhile py_isspace s"
  define b where "b = dropWhile py_isspace (rev a)"
  have st: "strip s = rev b" by (simp add: strip_def a_def b_def)
  with False have bne: "b \<noteq> []" by simp
  then have "\<not> py_isspace (hd b)" unfolding b_def by (rule hd_dropWhile)
  then have l: "\<not> py_isspace (last (strip s))" using bne by (simp add: st last_rev)
  have tk: "strip s = take (length a - length (takeWhile py_isspace (rev a))) a"
    unfolding st b_def by (rule rstrip_take)
  with False have ane: "a \<noteq> []" by auto
  then have "\<not> py_isspace (hd a)" unfolding a_def by (rule hd_dropWhile)
  moreover have "hd (strip s) = hd a" using False tk
    by (metis hd_take take_eq_Nil neq0_conv)
  ultimately show ?thesis using l by simp
qed

lemma strip_idem: "strip (strip s) = strip s"
  by (rule strip_fixed) (rule strip_ends)

lemma sublist_strip: "sublist (strip s) s"
proof -
  have "sublist (rev (dropWhile py_isspace (rev (dropWhile py_isspace s)))) (dropWhile py_isspace s)"
    unfolding rstrip_take by (rule sublist_take)
  moreover have "sublist (dropWhile py_isspace s) s"
    by (metis suffix_dropWhile suffix_imp_sublist)
  ultimately show ?thesis unfolding strip_def by (rule sublist_order.order_trans)
qed


lemma lit_fence: "lit ''```'' = [96, 96, 96]"
  by (simp add: lit_def)

lemma lead_ge3: "prefix [96, 96, 96] s \<Longrightarrow> 3 \<le> lead s"
  by (auto simp: prefix_def lead_def)

lemma replace_fence_Nil: "replace [96, 96, 96] [] [] = []"
  by (simp add: replace.simps)

lemma replace_fence_match:
  "replace [96, 96, 96] [] (96 # 96 # 96 # s) = replace [96, 96, 96] [] s"
  by (subst replace.simps) (simp add: startswith_def)

lemma replace_fence_skip:
  assumes "\<not> prefix [96, 96, 96] (c # s)"
  shows "replace [96, 96, 96] [] (c # s) = c # replace [96, 96, 96] [] s"
proof -
  have ns: "\<not> startswith (c # s) [96, 96, 96]"
    using assms unfolding startswith_prefix .
  show ?thesis by (subst replace.simps) (simp add: ns)
qed

lemma lead_replace: "lead (replace [96, 96, 96] [] s) = lead s mod 3"
proof (induction s rule: length_induct)
  case (1 s)
  show ?case
  proof (cases "prefix [96, 96, 96] s")
    case True
    then obtain t where s: "s = 96 # 96 # 96 # t" by (auto simp: prefix_def)
    have "lead (replace [96, 96, 96] [] t) = lead t mod 3" using 1 s by simp
    then show ?thesis by (simp add: s replace_fence_match lead_def)
  next
    case False
    show ?thesis
    proof (cases s)
      case Nil
      then show ?thesis by (simp add: lead_def replace_fence_Nil)
    next
      case (Cons c cs)
      have ih: "lead (replace [96, 96, 96] [] cs) = lead cs mod 3" using 1 Cons by simp
      have r: "replace [96, 96, 96] [] (c # cs) = c # replace [96, 96, 96] [] cs"
        using False Cons by (simp add: replace_fence_skip)
      show ?thesis
      proof (cases "c = 96")
        case False
        then have "lead (c # replace [96, 96, 96] [] cs) = lead (c # cs) mod 3"
          by (simp add: lead_def)
        then show ?thesis unfolding Cons r .
      next
        case True
        have "lead cs < 2"
        proof (rule ccontr)
          assume "\<not> lead cs < 2"
          then have "2 \<le> length (takeWhile (\<lambda>c. c = 96) cs)" by (simp add: lead_def)
          then obtain x y zs where "takeWhile (\<lambda>c. c = 96) cs = x # y # zs"
            by (cases "takeWhile (\<lambda>c. c = 96) cs" rule: list.exhaust; 
                cases "tl (takeWhile (\<lambda>c. c = 96) cs)") auto
          moreover have "\<forall>z \<in> set (takeWhile (\<lambda>c. c = 96) cs). z = 96"
            by (auto dest: set_takeWhileD)
          moreover have "prefix (takeWhile (\<lambda>c. c = 96) cs) cs" by (rule takeWhile_is_prefix)
          ultimately have "prefix [96, 96] cs" by (auto simp: prefix_def)
          with \<open>\<not> prefix [96, 96, 96] s\<close> Cons True show False by simp
        qed
        then have "lead (c # replace [96, 96, 96] [] cs) = lead (c # cs) mod 3"
          using ih True by (simp add: lead_def)
        then show ?thesis unfolding Cons r .
      qed
    qed
  qed
qed

lemma no_fence_replace: "\<not> sublist [96, 96, 96] (replace [96, 96, 96] [] s)"
proof (induction s rule: length_induct)
  case (1 s)
  show ?case
  proof (cases "prefix [96, 96, 96] s")
    case True
    then obtain t where s: "s = 96 # 96 # 96 # t" by (auto simp: prefix_def)
    then show ?thesis using 1 by (simp add: replace_fence_match)
  next
    case False
    show ?thesis
    proof (cases s)
      case Nil
      then show ?thesis by (simp add: replace_fence_Nil)
    next
      case (Cons c cs)
      have ih: "\<not> sublist [96, 96, 96] (replace [96, 96, 96] [] cs)" using 1 Cons by simp
      have r: "replace [96, 96, 96] [] (c # cs) = c # replace [96, 96, 96] [] cs"
        using False Cons by (simp add: replace_fence_skip)
      have "lead (replace [96, 96, 96] [] (c # cs)) < 3" by (simp add: lead_replace)
      then have "\<not> prefix [96, 96, 96] (c # replace [96, 96, 96] [] cs)"
        using lead_ge3 r by fastforce
      with ih show ?thesis unfolding Cons r by (simp add: sublist_Cons_right del: prefix_code)
    qed
  qed
qed

lemma starts_fence_sublist:
  "prefix [96, 96, 96] p \<Longrightarrow> startswith s p \<Longrightarrow> sublist [96, 96, 96] s"
  unfolding startswith_prefix
  by (meson prefix_imp_sublist prefix_order.trans)

lemma stripped_not_fenced:
  assumes "prefix [96, 96, 96] p"
  shows "\<not> startswith (strip (replace [96, 96, 96] [] x)) p"
proof
  assume "startswith (strip (replace [96, 96, 96] [] x)) p"
  with assms have "sublist [96, 96, 96] (strip (replace [96, 96, 96] [] x))"
    by (rule starts_fence_sublist)
  then have "sublist [96, 96, 96] (replace [96, 96, 96] [] x)"
    using sublist_strip sublist_order.order_trans by blast
  then show False by (simp add: no_fence_replace)
qed

text \<open>
  C6. Stripping the fenced code block is idempotent, for the \<open>```sql\<close> stripping of
  \<open>write_query\<close> and for the \<open>```python\<close> stripping of \<open>create_visualization\<close>: applied to its
  own output, it returns that output unchanged.
\<close>

theorem fence_stripping_idempotent:
  "strip_sql_fence (strip_sql_fence s) = strip_sql_fence s
   \<and> strip_python_fence (strip_python_fence s) = strip_python_fence s"
proof
  have p: "prefix [96, 96, 96] (lit ''```sql'')" by (simp add: lit_def)
  show "strip_sql_fence (strip_sql_fence s) = strip_sql_fence s"
  proof (cases "startswith (strip s) (lit ''```sql'')")
    case True
    then have "strip_sql_fence s = strip (replace [96, 96, 96] [] (replace (lit ''```sql'') [] (strip s)))"
      by (simp add: strip_sql_fence_def lit_fence)
    then show ?thesis
      using stripped_not_fenced [OF p] by (simp add: strip_sql_fence_def Let_def strip_idem)
  next
    case False
    then show ?thesis by (simp add: strip_sql_fence_def Let_def strip_idem)
  qed
next
  have p: "prefix [96, 96, 96] (lit ''```python'')" by (simp add: lit_def)
  show "strip_python_fence (strip_python_fence s) = strip_python_fence s"
  proof (cases "startswith (strip s) (lit ''```python'')")
    case True
    then have "strip_python_fence s = strip (replace [96, 96, 96] [] (replace (lit ''```python'') [] (strip s)))"
      by (simp add: strip_python_fence_def lit_fence strip_idem)
    then show ?thesis
      using stripped_not_fenced [OF p] by (simp add: strip_python_fence_def Let_def strip_idem)
  next
    case False
    then show ?thesis by (simp add: strip_python_fence_def Let_def strip_idem)
  qed
qed


section \<open>The no-results handler and the fork\<close>

text \<open>
  C5. \<open>handle_no_results\<close> returns the same dictionary for every state: the single key
  \<open>answer\<close>, bound to a fixed message that contains the no-results phrase. It takes no
  model and no runtime: there is nothing it could call.
\<close>

theorem handle_no_results_fixed:
  "handle_no_results st = handle_no_results st'
   \<and> keys (handle_no_results st) = [''answer'']
   \<and> (\<exists>msg. answer (handle_no_results st) = Some msg
          \<and> sublist (lit ''n'' @ [227] @ lit ''o retornou nenhum resultado'') msg)"
proof -
  have "sublist (lit ''n'' @ [227] @ lit ''o retornou nenhum resultado'')
          (lit ''A consulta SQL '' @ (lit ''n'' @ [227] @ lit ''o retornou nenhum resultado'')
           @ lit ''.'')"
    by (rule sublist_appendI)
  then have "sublist (lit ''n'' @ [227] @ lit ''o retornou nenhum resultado'')
          (lit ''A consulta SQL n'' @ [227] @ lit ''o retornou nenhum resultado.'')"
    by (simp add: lit_def)
  then show ?thesis
    by (simp add: handle_no_results_def keys_def empty_dict_def)
qed

text \<open>
  C10. A state without the key \<open>has_results\<close> is routed to \<open>handle_no_results\<close>, exactly as
  a state whose \<open>has_results\<close> is false; the router answers \<open>generate_answer\<close> only when the
  key is present and true.
\<close>

theorem absent_has_results_routes_to_no_results:
  "(has_results st = None \<longrightarrow> should_continue_workflow st = ''handle_no_results'')
   \<and> should_continue_workflow (st\<lparr>has_results := None\<rparr>)
       = should_continue_workflow (st\<lparr>has_results := Some False\<rparr>)
   \<and> (should_continue_workflow st = ''generate_answer'' \<longleftrightarrow> has_results st = Some True)"
  by (cases "has_results st") (auto simp: should_continue_workflow_def)

theorem absent_has_results_routes_to_no_results_witness:
  "has_results empty_dict = None
   \<and> should_continue_workflow empty_dict = ''handle_no_results''
   \<and> should_continue_workflow (empty_dict\<lparr>has_results := Some True\<rparr>) = ''generate_answer''"
  using absent_has_results_routes_to_no_results [of empty_dict]
        absent_has_results_routes_to_no_results [of "empty_dict\<lparr>has_results := Some True\<rparr>"]
  by (simp add: empty_dict_def)

section \<open>The executor\<close>

lemma keys_result_flag:
  "keys (empty_dict\<lparr>result := Some r, has_results := Some b\<rparr>) = [''result'', ''has_results'']"
  by (simp add: keys_def empty_dict_def)

lemma execute_query_raised:
  assumes "(case getitem (query st) ''query'' of Inl e \<Rightarrow> Inl e
            | Inr q \<Rightarrow> run_query (case db0 of None \<Rightarrow> get_default_db rt | Some d \<Rightarrow> d) q)
           = Inl e"
  shows "execute_query rt st db0
         = empty_dict\<lparr>result := Some (Text (lit ''Error executing query: '' @ e)),
                      has_results := Some False\<rparr>"
  using assms by (simp add: execute_query_def Let_def)

lemma execute_query_returned:
  assumes "(case getitem (query st) ''query'' of Inl e \<Rightarrow> Inl e
            | Inr q \<Rightarrow> run_query (case db0 of None \<Rightarrow> get_default_db rt | Some d \<Rightarrow> d) q)
           = Inr df"
  shows "execute_query rt st db0 =
      (if \<not> df_empty df \<and> len df > 0 \<and> \<not> series_all (frame_all (isnull df))
       then empty_dict\<lparr>result := Some (Table df), has_results := Some True\<rparr>
       else empty_dict\<lparr>result := Some (Text (lit ''Nenhum resultado encontrado.'')),
                        has_results := Some False\<rparr>)"
  using assms by (simp add: execute_query_def Let_def)

lemma execute_query_shape:
  "\<exists>r b. execute_query rt st db0 = empty_dict\<lparr>result := Some r, has_results := Some b\<rparr>
         \<and> (b \<longrightarrow> (\<exists>df. r = Table df))"
proof (cases "case getitem (query st) ''query'' of Inl e \<Rightarrow> Inl e
              | Inr q \<Rightarrow> run_query (case db0 of None \<Rightarrow> get_default_db rt | Some d \<Rightarrow> d) q")
  case (Inl e)
  show ?thesis
    by (rule exI [of _ "Text (lit ''Error executing query: '' @ e)"], rule exI [of _ False])
       (simp add: execute_query_raised [OF Inl])
next
  case (Inr df)
  show ?thesis
  proof (cases "\<not> df_empty df \<and> len df > 0 \<and> \<not> series_all (frame_all (isnull df))")
    case True
    show ?thesis
      by (rule exI [of _ "Table df"], rule exI [of _ True])
         (simp add: execute_query_returned [OF Inr] True)
  next
    case False
    show ?thesis
      by (rule exI [of _ "Text (lit ''Nenhum resultado encontrado.'')"], rule exI [of _ False])
         (simp add: execute_query_returned [OF Inr] False)
  qed
qed

lemma keys_execute_query: "keys (execute_query rt st db0) = [''result'', ''has_results'']"
proof -
  obtain r b where "execute_query rt st db0
                    = empty_dict\<lparr>result := Some r, has_results := Some b\<rparr>"
    using execute_query_shape by blast
  then show ?thesis by (simp only: keys_result_flag)
qed

lemma all_null_iff:
  "series_all (frame_all (isnull df)) = (\<forall>(c, vs) \<in> set (cols df). \<forall>v \<in> set vs. v = NA)"
  by (auto simp: series_all_def frame_all_def isnull_def list_all_iff)

lemma some_value_cols:
  "\<exists>(c, vs) \<in> set xs. \<exists>v \<in> set vs. v \<noteq> NA \<Longrightarrow>
   xs \<noteq> [] \<and> \<not> (\<forall>(c, vs) \<in> set xs. \<forall>v \<in> set vs. v = NA)"
  by auto

text \<open>
  C2. When the data store returns a table: a table with at least one row and some value
  that is not null gives \<open>has_results = True\<close> and \<open>result\<close> that very table; a table with
  no row, or with every value null, gives \<open>has_results = False\<close> and the canned message.
  The returned dictionary carries exactly the two keys \<open>result\<close> and \<open>has_results\<close>, so both
  reach the state in one \<open>update\<close>.
\<close>

theorem execute_query_table:
  assumes "query st = Some q"
    and "run_query (case db0 of None \<Rightarrow> get_default_db rt | Some d \<Rightarrow> d) q = Inr df"
  shows "(0 < index_len df \<and> (\<exists>(c, vs) \<in> set (cols df). \<exists>v \<in> set vs. v \<noteq> NA) \<longrightarrow>
            execute_query rt st db0
            = empty_dict\<lparr>result := Some (Table df), has_results := Some True\<rparr>)
       \<and> (index_len df = 0 \<or> (\<forall>(c, vs) \<in> set (cols df). \<forall>v \<in> set vs. v = NA) \<longrightarrow>
            execute_query rt st db0
            = empty_dict\<lparr>result := Some (Text (lit ''Nenhum resultado encontrado.'')),
                         has_results := Some False\<rparr>)
       \<and> keys (execute_query rt st db0) = [''result'', ''has_results'']"
proof -
  have ex: "execute_query rt st db0 =
      (if \<not> df_empty df \<and> len df > 0 \<and> \<not> series_all (frame_all (isnull df))
       then empty_dict\<lparr>result := Some (Table df), has_results := Some True\<rparr>
       else empty_dict\<lparr>result := Some (Text (lit ''Nenhum resultado encontrado.'')),
                        has_results := Some False\<rparr>)"
    using assms by (simp add: execute_query_def Let_def getitem_def)
  have a: "0 < index_len df \<and> (\<exists>(c, vs) \<in> set (cols df). \<exists>v \<in> set vs. v \<noteq> NA) \<Longrightarrow>
        \<not> df_empty df \<and> len df > 0 \<and> \<not> series_all (frame_all (isnull df))"
    using some_value_cols [of "cols df"] by (simp add: all_null_iff df_empty_def len_def)
  have b: "index_len df = 0 \<or> (\<forall>(c, vs) \<in> set (cols df). \<forall>v \<in> set vs. v = NA) \<Longrightarrow>
        \<not> (\<not> df_empty df \<and> len df > 0 \<and> \<not> series_all (frame_all (isnull df)))"
    by (simp add: all_null_iff df_empty_def len_def)
  show ?thesis
  proof (intro conjI impI)
    assume "0 < index_len df \<and> (\<exists>(c, vs) \<in> set (cols df). \<exists>v \<in> set vs. v \<noteq> NA)"
    then have "\<not> df_empty df \<and> len df > 0 \<and> \<not> series_all (frame_all (isnull df))"
      by (rule a)
    then show "execute_query rt st db0
               = empty_dict\<lparr>result := Some (Table df), has_results := Some True\<rparr>"
      by (simp add: ex)
  next
    assume "index_len df = 0 \<or> (\<forall>(c, vs) \<in> set (cols df). \<forall>v \<in> set vs. v = NA)"
    then have "\<not> (\<not> df_empty df \<and> len df > 0 \<and> \<not> series_all (frame_all (isnull df)))"
      by (rule b)
    then show "execute_query rt st db0
               = empty_dict\<lparr>result := Some (Text (lit ''Nenhum resultado encontrado.'')),
                            has_results := Some False\<rparr>"
      by (simp add: ex)
  next
    show "keys (execute_query rt st db0) = [''result'', ''has_results'']"
      by (rule keys_execute_query)
  qed
qed

theorem execute_query_table_witness:
  "execute_query (test_runtime (mock_llm (Inr [])) (mock_db (Inr count_table)) 0) test_state None
     = empty_dict\<lparr>result := Some (Table count_table), has_results := Some True\<rparr>
   \<and> execute_query (test_runtime (mock_llm (Inr [])) (mock_db (Inr no_table)) 0) test_state None
     = empty_dict\<lparr>result := Some (Text (lit ''Nenhum resultado encontrado.'')),
                  has_results := Some False\<rparr>"
  using execute_query_table [where st = test_state and q = "lit ''SELECT * FROM test''"
          and ?db0.0 = None and df = count_table
          and rt = "test_runtime (mock_llm (Inr [])) (mock_db (Inr count_table)) 0"]
        execute_query_table [where st = test_state and q = "lit ''SELECT * FROM test''"
          and ?db0.0 = None and df = no_table
          and rt = "test_runtime (mock_llm (Inr [])) (mock_db (Inr no_table)) 0"]
  by (simp add: test_state_def test_runtime_def mock_db_def get_default_db_def count_table_def
        no_table_def)

text \<open>
  C3. When the data store raises, \<open>execute_query\<close> still returns a dictionary (its result
  type has no exception): \<open>has_results\<close> is false and \<open>result\<close> is a string that contains
  \<open>Error executing query\<close>.
\<close>

theorem execute_query_error:
  assumes "query st = Some q"
    and "run_query (case db0 of None \<Rightarrow> get_default_db rt | Some d \<Rightarrow> d) q = Inl e"
  shows "has_results (execute_query rt st db0) = Some False
       \<and> (\<exists>msg. result (execute_query rt st db0) = Some (Text msg)
                \<and> sublist (lit ''Error executing query'') msg)"
proof -
  have "execute_query rt st db0
        = empty_dict\<lparr>result := Some (Text (lit ''Error executing query: '' @ e)),
                     has_results := Some False\<rparr>"
    using assms by (simp add: execute_query_def Let_def getitem_def)
  moreover have "sublist (lit ''Error executing query'') (lit ''Error executing query: '' @ e)"
  proof -
    have "prefix (lit ''Error executing query'') (lit ''Error executing query'' @ (lit '': '' @ e))"
      by (rule prefixI) simp
    then show ?thesis by (simp add: lit_def del: prefix_code)
  qed
  ultimately show ?thesis by (simp add: empty_dict_def)
qed

theorem execute_query_error_witness:
  "has_results (execute_query (test_runtime (mock_llm (Inr [])) (mock_db (Inl (lit ''DB Error''))) 0)
                  test_state None) = Some False
   \<and> result (execute_query (test_runtime (mock_llm (Inr [])) (mock_db (Inl (lit ''DB Error''))) 0)
                  test_state None) = Some (Text (lit ''Error executing query: DB Error''))"
  using execute_query_error [where st = test_state and q = "lit ''SELECT * FROM test''"
          and ?db0.0 = None and e = "lit ''DB Error''"
          and rt = "test_runtime (mock_llm (Inr [])) (mock_db (Inl (lit ''DB Error''))) 0"]
  by (simp add: test_state_def test_runtime_def mock_db_def get_default_db_def
        execute_query_def getitem_def lit_def)

section \<open>Query generation\<close>

lemma write_query_raises:
  assumes "llm_or_default rt llm = Inr m" and "write_query_try m st = Inl e"
  shows "write_query rt st llm
         = Inl (Exception_dict (empty_dict\<lparr>query := Some (lit ''-- Error generating query: '' @ e)\<rparr>))"
  using assms by (simp add: write_query_def)

lemma write_query_try_model_raises:
  assumes "question st = Some q" and "tables st = Some ts" and "schema st = Some sc"
    and "m write_query_system_prompt
           [(''question'', PStr q), (''tables'', PStr (join [10] ts)), (''schema'', PStr sc)] = Inl e"
  shows "write_query_try m st = Inl e"
  using assms by (simp add: write_query_try_def getitem_def)

text \<open>
  C1. The model raises \<open>LLM Error\<close> on the state of the test suite: \<open>write_query\<close> does not
  return a dictionary whose \<open>query\<close> is the error string, it raises an exception that
  carries that dictionary.
\<close>

theorem write_query_raises_on_model_failure:
  "write_query (test_runtime (mock_llm (Inl (lit ''LLM Error''))) (mock_db (Inr count_table)) 0)
     test_state None
   = Inl (Exception_dict
           (empty_dict\<lparr>query := Some (lit ''-- Error generating query: LLM Error'')\<rparr>))"
proof -
  have "write_query (test_runtime (mock_llm (Inl (lit ''LLM Error''))) (mock_db (Inr count_table)) 0)
     test_state None
   = Inl (Exception_dict
           (empty_dict\<lparr>query := Some (lit ''-- Error generating query: '' @ lit ''LLM Error'')\<rparr>))"
  proof (rule write_query_raises)
    show "llm_or_default (test_runtime (mock_llm (Inl (lit ''LLM Error''))) (mock_db (Inr count_table)) 0)
            None = Inr (mock_llm (Inl (lit ''LLM Error'')))"
      by (simp add: llm_or_default_def get_default_llm_def test_runtime_def lit_def)
    show "write_query_try (mock_llm (Inl (lit ''LLM Error''))) test_state = Inl (lit ''LLM Error'')"
      by (simp add: write_query_try_def getitem_def test_state_def mock_llm_def)
  qed
  then show ?thesis by (simp add: lit_def)
qed

section \<open>Answer and explanation\<close>

lemma keys_answer: "keys (empty_dict\<lparr>answer := Some v\<rparr>) = [''answer'']"
  by (simp add: keys_def empty_dict_def)

lemma keys_explanation: "keys (empty_dict\<lparr>explanation := Some v\<rparr>) = [''explanation'']"
  by (simp add: keys_def empty_dict_def)

lemma generate_answer_shape:
  assumes "generate_answer rt st llm = Inr d"
  shows "\<exists>v. d = empty_dict\<lparr>answer := Some v\<rparr>"
proof -
  obtain m where m: "llm_or_default rt llm = Inr m"
    using assms by (cases "llm_or_default rt llm") (simp_all add: generate_answer_def)
  show ?thesis
  proof (cases "generate_answer_try rt m st")
    case (Inl e)
    with m assms show ?thesis by (auto simp: generate_answer_def)
  next
    case (Inr d')
    then have "\<exists>v. d' = empty_dict\<lparr>answer := Some v\<rparr>"
      by (auto simp: generate_answer_try_def split: sum.splits)
    with m assms Inr show ?thesis by (auto simp: generate_answer_def)
  qed
qed

lemma explain_answer_shape:
  assumes "explain_answer rt st llm = Inr d"
  shows "\<exists>v. d = empty_dict\<lparr>explanation := Some v\<rparr>"
proof -
  obtain m where m: "llm_or_default rt llm = Inr m"
    using assms by (cases "llm_or_default rt llm") (simp_all add: explain_answer_def)
  show ?thesis
  proof (cases "explain_answer_try rt m st")
    case (Inl e)
    with m assms show ?thesis by (auto simp: explain_answer_def)
  next
    case (Inr d')
    then have "\<exists>v. d' = empty_dict\<lparr>explanation := Some v\<rparr>"
      by (auto simp: explain_answer_try_def split: sum.splits)
    with m assms Inr show ?thesis by (auto simp: explain_answer_def)
  qed
qed

















section \<open>Runs of the workflow graph\<close>

lemma stream_from_END: "stream_from limit g rt END st = Inr ([], st)"
  by (cases limit) simp_all

lemma stream_from_step:
  assumes "n \<noteq> END" and "map_of (nodes g) n = Some f" and "f rt st = Inr d"
    and "next_node g n (dict_update st d) = Some n'"
    and "stream_from limit g rt n' (dict_update st d) = Inr (out, final)"
  shows "stream_from (Suc limit) g rt n st = Inr ((n, d) # out, final)"
  using assms by simp

lemma node_write_query:
  "map_of (nodes create_sql_workflow) ''write_query'' = Some (\<lambda>rt state. write_query rt state None)"
  by (simp add: create_sql_workflow_def)

lemma node_execute_query:
  "map_of (nodes create_sql_workflow) ''execute_query''
   = Some (\<lambda>rt state. Inr (execute_query rt state None))"
  by (simp add: create_sql_workflow_def)

lemma node_generate_answer:
  "map_of (nodes create_sql_workflow) ''generate_answer''
   = Some (\<lambda>rt state. generate_answer rt state None)"
  by (simp add: create_sql_workflow_def)

lemma node_explain_answer:
  "map_of (nodes create_sql_workflow) ''explain_answer''
   = Some (\<lambda>rt state. explain_answer rt state None)"
  by (simp add: create_sql_workflow_def)

lemma node_create_visualization:
  "map_of (nodes create_sql_workflow) ''create_visualization''
   = Some (\<lambda>rt state. create_visualization rt state None)"
  by (simp add: create_sql_workflow_def)

lemma node_handle_no_results:
  "map_of (nodes create_sql_workflow) ''handle_no_results''
   = Some (\<lambda>rt state. Inr (handle_no_results state))"
  by (simp add: create_sql_workflow_def)

lemma next_write_query: "next_node create_sql_workflow ''write_query'' st = Some ''execute_query''"
  by (simp add: next_node_def create_sql_workflow_def)

lemma next_execute_query:
  "next_node create_sql_workflow ''execute_query'' st = Some (should_continue_workflow st)"
  by (simp add: next_node_def create_sql_workflow_def should_continue_workflow_def)

lemma next_generate_answer:
  "next_node create_sql_workflow ''generate_answer'' st = Some ''explain_answer''"
  by (simp add: next_node_def create_sql_workflow_def)

lemma next_explain_answer:
  "next_node create_sql_workflow ''explain_answer'' st = Some ''create_visualization''"
  by (simp add: next_node_def create_sql_workflow_def)

lemma next_create_visualization:
  "next_node create_sql_workflow ''create_visualization'' st = Some END"
  by (simp add: next_node_def create_sql_workflow_def)

lemma next_handle_no_results:
  "next_node create_sql_workflow ''handle_no_results'' st = Some END"
  by (simp add: next_node_def create_sql_workflow_def)


lemma default_llm_available:
  assumes "write_query rt st None = Inr d"
  shows "\<exists>m. llm_or_default rt None = Inr m"
  using assms by (cases "llm_or_default rt None") (simp_all add: write_query_def)

lemma generate_answer_returns:
  "llm_or_default rt llm = Inr m \<Longrightarrow> \<exists>d. generate_answer rt st llm = Inr d"
  by (simp add: generate_answer_def)

lemma explain_answer_returns:
  "llm_or_default rt llm = Inr m \<Longrightarrow> \<exists>d. explain_answer rt st llm = Inr d"
  by (simp add: explain_answer_def)

lemma create_visualization_returns:
  "llm_or_default rt llm = Inr m \<Longrightarrow> \<exists>d. create_visualization rt st llm = Inr d"
  by (simp add: create_visualization_def)

lemma has_results_after_execute:
  "has_results (dict_update st (execute_query rt st db0)) = has_results (execute_query rt st db0)"
proof -
  obtain r b where "execute_query rt st db0
                    = empty_dict\<lparr>result := Some r, has_results := Some b\<rparr>"
    using execute_query_shape by blast
  then show ?thesis by (simp add: dict_update_def override_def)
qed

lemma has_results_set: "\<exists>b. has_results (execute_query rt st db0) = Some b"
proof -
  obtain r b where "execute_query rt st db0
                    = empty_dict\<lparr>result := Some r, has_results := Some b\<rparr>"
    using execute_query_shape by blast
  then show ?thesis by simp
qed

lemma names_differ_END:
  "''write_query'' \<noteq> END" "''execute_query'' \<noteq> END" "''generate_answer'' \<noteq> END"
  "''explain_answer'' \<noteq> END" "''create_visualization'' \<noteq> END" "''handle_no_results'' \<noteq> END"
  by (simp_all add: END_def)

lemma results_path:
  assumes d3: "generate_answer rt st2 None = Inr d3"
    and d4: "explain_answer rt (dict_update st2 d3) None = Inr d4"
    and d5: "create_visualization rt (dict_update (dict_update st2 d3) d4) None = Inr d5"
  shows "stream_from (Suc (Suc (Suc limit))) create_sql_workflow rt ''generate_answer'' st2
         = Inr ([(''generate_answer'', d3), (''explain_answer'', d4), (''create_visualization'', d5)],
                dict_update (dict_update (dict_update st2 d3) d4) d5)"
proof -
  have "stream_from (Suc limit) create_sql_workflow rt ''create_visualization''
          (dict_update (dict_update st2 d3) d4)
        = Inr ([(''create_visualization'', d5)],
               dict_update (dict_update (dict_update st2 d3) d4) d5)"
    by (rule stream_from_step [OF names_differ_END(5) node_create_visualization d5
          next_create_visualization stream_from_END])
  then have "stream_from (Suc (Suc limit)) create_sql_workflow rt ''explain_answer''
          (dict_update st2 d3)
        = Inr ([(''explain_answer'', d4), (''create_visualization'', d5)],
               dict_update (dict_update (dict_update st2 d3) d4) d5)"
    by (rule stream_from_step [OF names_differ_END(4) node_explain_answer d4 next_explain_answer])
  then show ?thesis
    by (rule stream_from_step [OF names_differ_END(3) node_generate_answer d3 next_generate_answer])
qed

lemma no_results_path:
  "stream_from (Suc limit) create_sql_workflow rt ''handle_no_results'' st2
   = Inr ([(''handle_no_results'', handle_no_results st2)],
          dict_update st2 (handle_no_results st2))"
  by (rule stream_from_step [OF names_differ_END(6) node_handle_no_results refl
        next_handle_no_results stream_from_END])

lemma to_the_fork:
  assumes d1: "write_query rt st None = Inr d1"
    and rest: "stream_from limit create_sql_workflow rt
                 (should_continue_workflow
                    (dict_update (dict_update st d1) (execute_query rt (dict_update st d1) None)))
                 (dict_update (dict_update st d1) (execute_query rt (dict_update st d1) None))
               = Inr (out, final)"
  shows "stream_from (Suc (Suc limit)) create_sql_workflow rt ''write_query'' st
         = Inr ((''write_query'', d1)
                # (''execute_query'', execute_query rt (dict_update st d1) None) # out, final)"
proof -
  have "stream_from (Suc limit) create_sql_workflow rt ''execute_query'' (dict_update st d1)
        = Inr ((''execute_query'', execute_query rt (dict_update st d1) None) # out, final)"
    by (rule stream_from_step [OF names_differ_END(2) node_execute_query refl
          next_execute_query rest])
  then show ?thesis
    by (rule stream_from_step [OF names_differ_END(1) node_write_query d1 next_write_query])
qed


lemma stream_unfold:
  "stream create_sql_workflow rt st
   = stream_from (Suc (Suc (Suc (Suc (Suc 20))))) create_sql_workflow rt ''write_query'' st"
proof -
  have ep: "entry_point create_sql_workflow = ''write_query''"
    by (simp add: create_sql_workflow_def)
  have n: "(25::nat) = Suc (Suc (Suc (Suc (Suc 20))))" by simp
  show ?thesis by (simp only: stream_def ep n)
qed

lemma graph_run:
  assumes "write_query rt st None = Inr d1"
    and "d2 = execute_query rt (dict_update st d1) None"
    and "st2 = dict_update (dict_update st d1) d2"
  shows "(has_results d2 = Some True \<or> has_results d2 = Some False)
       \<and> (has_results d2 = Some True \<longrightarrow>
            (\<exists>d3 d4 d5.
               generate_answer rt st2 None = Inr d3
               \<and> explain_answer rt (dict_update st2 d3) None = Inr d4
               \<and> create_visualization rt (dict_update (dict_update st2 d3) d4) None = Inr d5
               \<and> stream create_sql_workflow rt st
                 = Inr ([(''write_query'', d1), (''execute_query'', d2),
                         (''generate_answer'', d3), (''explain_answer'', d4),
                         (''create_visualization'', d5)],
                        dict_update (dict_update (dict_update st2 d3) d4) d5)))
       \<and> (has_results d2 = Some False \<longrightarrow>
            stream create_sql_workflow rt st
            = Inr ([(''write_query'', d1), (''execute_query'', d2),
                    (''handle_no_results'', handle_no_results st2)],
                   dict_update st2 (handle_no_results st2)))"
proof (intro conjI impI)
  show "has_results d2 = Some True \<or> has_results d2 = Some False"
    using has_results_set [of rt "dict_update st d1" None] assms(2) by auto
next
  assume t: "has_results d2 = Some True"
  obtain m where m: "llm_or_default rt None = Inr m"
    using default_llm_available [OF assms(1)] by blast
  obtain d3 where d3: "generate_answer rt st2 None = Inr d3"
    using generate_answer_returns [OF m] by blast
  obtain d4 where d4: "explain_answer rt (dict_update st2 d3) None = Inr d4"
    using explain_answer_returns [OF m] by blast
  obtain d5 where d5: "create_visualization rt (dict_update (dict_update st2 d3) d4) None = Inr d5"
    using create_visualization_returns [OF m] by blast
  have "has_results st2 = Some True"
    using t has_results_after_execute [of "dict_update st d1" rt None] assms(2,3) by simp
  then have route: "should_continue_workflow st2 = ''generate_answer''"
    by (simp add: should_continue_workflow_def)
  have "stream_from (Suc (Suc (Suc 20))) create_sql_workflow rt
          (should_continue_workflow st2) st2
        = Inr ([(''generate_answer'', d3), (''explain_answer'', d4), (''create_visualization'', d5)],
               dict_update (dict_update (dict_update st2 d3) d4) d5)"
    unfolding route by (rule results_path [OF d3 d4 d5])
  then have "stream_from (Suc (Suc (Suc (Suc (Suc 20))))) create_sql_workflow rt ''write_query'' st
        = Inr ([(''write_query'', d1), (''execute_query'', d2),
                (''generate_answer'', d3), (''explain_answer'', d4),
                (''create_visualization'', d5)],
               dict_update (dict_update (dict_update st2 d3) d4) d5)"
    unfolding assms(2,3) by (rule to_the_fork [OF assms(1)])
  then have "stream create_sql_workflow rt st
        = Inr ([(''write_query'', d1), (''execute_query'', d2),
                (''generate_answer'', d3), (''explain_answer'', d4),
                (''create_visualization'', d5)],
               dict_update (dict_update (dict_update st2 d3) d4) d5)"
    by (simp only: stream_unfold)
  with d3 d4 d5 show "\<exists>d3 d4 d5.
               generate_answer rt st2 None = Inr d3
               \<and> explain_answer rt (dict_update st2 d3) None = Inr d4
               \<and> create_visualization rt (dict_update (dict_update st2 d3) d4) None = Inr d5
               \<and> stream create_sql_workflow rt st
                 = Inr ([(''write_query'', d1), (''execute_query'', d2),
                         (''generate_answer'', d3), (''explain_answer'', d4),
                         (''create_visualization'', d5)],
                        dict_update (dict_update (dict_update st2 d3) d4) d5)"
    by blast
next
  assume f: "has_results d2 = Some False"
  have "has_results st2 = Some False"
    using f has_results_after_execute [of "dict_update st d1" rt None] assms(2,3) by simp
  then have route: "should_continue_workflow st2 = ''handle_no_results''"
    by (simp add: should_continue_workflow_def)
  have "stream_from (Suc (Suc (Suc 20))) create_sql_workflow rt (should_continue_workflow st2) st2
        = Inr ([(''handle_no_results'', handle_no_results st2)],
               dict_update st2 (handle_no_results st2))"
    unfolding route by (rule no_results_path)
  then have "stream_from (Suc (Suc (Suc (Suc (Suc 20))))) create_sql_workflow rt ''write_query'' st
        = Inr ([(''write_query'', d1), (''execute_query'', d2),
                (''handle_no_results'', handle_no_results st2)],
               dict_update st2 (handle_no_results st2))"
    unfolding assms(2,3) by (rule to_the_fork [OF assms(1)])
  then show "stream create_sql_workflow rt st
        = Inr ([(''write_query'', d1), (''execute_query'', d2),
                (''handle_no_results'', handle_no_results st2)],
               dict_update st2 (handle_no_results st2))"
    by (simp only: stream_unfold)
qed


text \<open>
  C4. Once \<open>write_query\<close> has returned, a run of the compiled graph is one of two
  sequences, chosen by the \<open>has_results\<close> that \<open>execute_query\<close> returned: with \<open>True\<close> the
  nodes \<open>generate_answer\<close>, \<open>explain_answer\<close> and \<open>create_visualization\<close> run in that order,
  each on the state its predecessor left, and the run ends; with \<open>False\<close> only
  \<open>handle_no_results\<close> runs and the run ends.
\<close>

theorem workflow_forks_once_on_has_results:
  assumes "write_query rt st None = Inr d1"
    and "d2 = execute_query rt (dict_update st d1) None"
    and "st2 = dict_update (dict_update st d1) d2"
  shows "(has_results d2 = Some True \<or> has_results d2 = Some False)
       \<and> (has_results d2 = Some True \<longrightarrow>
            (\<exists>d3 d4 d5.
               generate_answer rt st2 None = Inr d3
               \<and> explain_answer rt (dict_update st2 d3) None = Inr d4
               \<and> create_visualization rt (dict_update (dict_update st2 d3) d4) None = Inr d5
               \<and> stream create_sql_workflow rt st
                 = Inr ([(''write_query'', d1), (''execute_query'', d2),
                         (''generate_answer'', d3), (''explain_answer'', d4),
                         (''create_visualization'', d5)],
                        dict_update (dict_update (dict_update st2 d3) d4) d5)))
       \<and> (has_results d2 = Some False \<longrightarrow>
            stream create_sql_workflow rt st
            = Inr ([(''write_query'', d1), (''execute_query'', d2),
                    (''handle_no_results'', handle_no_results st2)],
                   dict_update st2 (handle_no_results st2)))"
  using assms by (rule graph_run)

lemma mock_write_query:
  "write_query (test_runtime (mock_llm (Inr (lit ''SELECT 1''))) db n) test_state None
   = Inr (empty_dict\<lparr>query := Some (lit ''SELECT 1'')\<rparr>)"
proof -
  have "strip_sql_fence (lit ''SELECT 1'') = lit ''SELECT 1''"
    by (simp add: strip_sql_fence_def strip_def startswith_def lit_def py_isspace_def)
  then show ?thesis
    by (simp add: write_query_def llm_or_default_def get_default_llm_def test_runtime_def
          write_query_try_def getitem_def test_state_def mock_llm_def)
       (simp add: lit_def)
qed

lemma mock_execute_query_flag:
  "has_results
     (execute_query (test_runtime m (mock_db (Inr count_table)) n)
        (dict_update test_state (empty_dict\<lparr>query := Some (lit ''SELECT 1'')\<rparr>)) None)
   = Some True"
  "has_results
     (execute_query (test_runtime m (mock_db (Inr no_table)) n)
        (dict_update test_state (empty_dict\<lparr>query := Some (lit ''SELECT 1'')\<rparr>)) None)
   = Some False"
proof -
  have q: "query (dict_update test_state (empty_dict\<lparr>query := Some (lit ''SELECT 1'')\<rparr>))
           = Some (lit ''SELECT 1'')"
    by (simp add: dict_update_def override_def empty_dict_def)
  have "(case getitem (query (dict_update test_state
                                (empty_dict\<lparr>query := Some (lit ''SELECT 1'')\<rparr>))) ''query'' of
           Inl e \<Rightarrow> Inl e
         | Inr q \<Rightarrow> run_query (case None of
                                 None \<Rightarrow> get_default_db (test_runtime m (mock_db (Inr count_table)) n)
                               | Some d \<Rightarrow> d) q)
        = Inr count_table"
    by (simp add: q getitem_def get_default_db_def test_runtime_def mock_db_def)
  from execute_query_returned [OF this]
  show "has_results
     (execute_query (test_runtime m (mock_db (Inr count_table)) n)
        (dict_update test_state (empty_dict\<lparr>query := Some (lit ''SELECT 1'')\<rparr>)) None)
   = Some True"
    by (simp add: count_table_def df_empty_def len_def series_all_def frame_all_def isnull_def)
  have "(case getitem (query (dict_update test_state
                                (empty_dict\<lparr>query := Some (lit ''SELECT 1'')\<rparr>))) ''query'' of
           Inl e \<Rightarrow> Inl e
         | Inr q \<Rightarrow> run_query (case None of
                                 None \<Rightarrow> get_default_db (test_runtime m (mock_db (Inr no_table)) n)
                               | Some d \<Rightarrow> d) q)
        = Inr no_table"
    by (simp add: q getitem_def get_default_db_def test_runtime_def mock_db_def)
  from execute_query_returned [OF this]
  show "has_results
     (execute_query (test_runtime m (mock_db (Inr no_table)) n)
        (dict_update test_state (empty_dict\<lparr>query := Some (lit ''SELECT 1'')\<rparr>)) None)
   = Some False"
    by (simp add: no_table_def df_empty_def)
qed

theorem workflow_forks_once_on_has_results_witness:
  "(\<exists>out final.
      stream create_sql_workflow
        (test_runtime (mock_llm (Inr (lit ''SELECT 1''))) (mock_db (Inr count_table)) 0) test_state
      = Inr (out, final)
      \<and> map fst out = [''write_query'', ''execute_query'', ''generate_answer'',
                        ''explain_answer'', ''create_visualization''])
   \<and> (\<exists>out final.
      stream create_sql_workflow
        (test_runtime (mock_llm (Inr (lit ''SELECT 1''))) (mock_db (Inr no_table)) 0) test_state
      = Inr (out, final)
      \<and> map fst out = [''write_query'', ''execute_query'', ''handle_no_results''])"
proof
  from workflow_forks_once_on_has_results [OF mock_write_query refl refl]
       mock_execute_query_flag(1)
  obtain d3 d4 d5 where
    "stream create_sql_workflow
        (test_runtime (mock_llm (Inr (lit ''SELECT 1''))) (mock_db (Inr count_table)) 0) test_state
     = Inr ([(''write_query'', empty_dict\<lparr>query := Some (lit ''SELECT 1'')\<rparr>),
             (''execute_query'',
              execute_query (test_runtime (mock_llm (Inr (lit ''SELECT 1'')))
                               (mock_db (Inr count_table)) 0)
                (dict_update test_state (empty_dict\<lparr>query := Some (lit ''SELECT 1'')\<rparr>)) None),
             (''generate_answer'', d3), (''explain_answer'', d4), (''create_visualization'', d5)],
            dict_update (dict_update (dict_update
              (dict_update (dict_update test_state (empty_dict\<lparr>query := Some (lit ''SELECT 1'')\<rparr>))
                 (execute_query (test_runtime (mock_llm (Inr (lit ''SELECT 1'')))
                                   (mock_db (Inr count_table)) 0)
                    (dict_update test_state (empty_dict\<lparr>query := Some (lit ''SELECT 1'')\<rparr>))
                    None)) d3) d4) d5)"
    by blast
  then show "\<exists>out final.
      stream create_sql_workflow
        (test_runtime (mock_llm (Inr (lit ''SELECT 1''))) (mock_db (Inr count_table)) 0) test_state
      = Inr (out, final)
      \<and> map fst out = [''write_query'', ''execute_query'', ''generate_answer'',
                        ''explain_answer'', ''create_visualization'']"
    by simp
next
  from workflow_forks_once_on_has_results [OF mock_write_query refl refl]
       mock_execute_query_flag(2)
  have "stream create_sql_workflow
        (test_runtime (mock_llm (Inr (lit ''SELECT 1''))) (mock_db (Inr no_table)) 0) test_state
     = Inr ([(''write_query'', empty_dict\<lparr>query := Some (lit ''SELECT 1'')\<rparr>),
             (''execute_query'',
              execute_query (test_runtime (mock_llm (Inr (lit ''SELECT 1'')))
                               (mock_db (Inr no_table)) 0)
                (dict_update test_state (empty_dict\<lparr>query := Some (lit ''SELECT 1'')\<rparr>)) None),
             (''handle_no_results'',
              handle_no_results
               (dict_update (dict_update test_state (empty_dict\<lparr>query := Some (lit ''SELECT 1'')\<rparr>))
                 (execute_query (test_runtime (mock_llm (Inr (lit ''SELECT 1'')))
                                   (mock_db (Inr no_table)) 0)
                    (dict_update test_state (empty_dict\<lparr>query := Some (lit ''SELECT 1'')\<rparr>))
                    None)))],
            dict_update
              (dict_update (dict_update test_state (empty_dict\<lparr>query := Some (lit ''SELECT 1'')\<rparr>))
                 (execute_query (test_runtime (mock_llm (Inr (lit ''SELECT 1'')))
                                   (mock_db (Inr no_table)) 0)
                    (dict_update test_state (empty_dict\<lparr>query := Some (lit ''SELECT 1'')\<rparr>))
                    None))
              (handle_no_results
               (dict_update (dict_update test_state (empty_dict\<lparr>query := Some (lit ''SELECT 1'')\<rparr>))
                 (execute_query (test_runtime (mock_llm (Inr (lit ''SELECT 1'')))
                                   (mock_db (Inr no_table)) 0)
                    (dict_update test_state (empty_dict\<lparr>query := Some (lit ''SELECT 1'')\<rparr>))
                    None))))"
    by blast
  then show "\<exists>out final.
      stream create_sql_workflow
        (test_runtime (mock_llm (Inr (lit ''SELECT 1''))) (mock_db (Inr no_table)) 0) test_state
      = Inr (out, final)
      \<and> map fst out = [''write_query'', ''execute_query'', ''handle_no_results'']"
    by simp
qed

section \<open>Fields are written once\<close>

lemma keys_query: "keys (empty_dict\<lparr>query := Some v\<rparr>) = [''query'']"
  by (simp add: keys_def empty_dict_def)

lemma keys_dataviz_code: "keys (empty_dict\<lparr>dataviz_code := Some v\<rparr>) = [''dataviz_code'']"
  by (simp add: keys_def empty_dict_def)

lemma write_query_shape:
  assumes "write_query rt st llm = Inr d"
  shows "\<exists>v. d = empty_dict\<lparr>query := Some v\<rparr>"
proof -
  obtain m where m: "llm_or_default rt llm = Inr m"
    using assms by (cases "llm_or_default rt llm") (simp_all add: write_query_def)
  show ?thesis
  proof (cases "write_query_try m st")
    case (Inl e)
    with m assms show ?thesis by (simp add: write_query_def)
  next
    case (Inr d')
    then have "\<exists>v. d' = empty_dict\<lparr>query := Some v\<rparr>"
      by (auto simp: write_query_try_def split: sum.splits)
    with m assms Inr show ?thesis by (auto simp: write_query_def)
  qed
qed

lemma create_visualization_shape:
  assumes "create_visualization rt st llm = Inr d"
  shows "\<exists>v. d = empty_dict\<lparr>dataviz_code := Some v\<rparr>"
proof -
  obtain m where m: "llm_or_default rt llm = Inr m"
    using assms by (cases "llm_or_default rt llm") (simp_all add: create_visualization_def)
  show ?thesis
  proof (cases "create_visualization_try rt m st")
    case (Inl e)
    with m assms show ?thesis by (auto simp: create_visualization_def)
  next
    case (Inr d')
    then have "\<exists>v. d' = empty_dict\<lparr>dataviz_code := Some v\<rparr>"
      by (auto simp: create_visualization_try_def Let_def
            split: sum.splits result_val.splits prod.splits if_splits)
    with m assms Inr show ?thesis by (auto simp: create_visualization_def)
  qed
qed

lemma keys_write_query: "write_query rt st llm = Inr d \<Longrightarrow> keys d = [''query'']"
  using write_query_shape keys_query by metis

lemma keys_generate_answer: "generate_answer rt st llm = Inr d \<Longrightarrow> keys d = [''answer'']"
  using generate_answer_shape keys_answer by metis

lemma keys_explain_answer: "explain_answer rt st llm = Inr d \<Longrightarrow> keys d = [''explanation'']"
  using explain_answer_shape keys_explanation by metis

lemma keys_create_visualization:
  "create_visualization rt st llm = Inr d \<Longrightarrow> keys d = [''dataviz_code'']"
  using create_visualization_shape keys_dataviz_code by metis

lemma keys_handle_no_results: "keys (handle_no_results st) = [''answer'']"
  by (simp add: handle_no_results_def keys_answer)

lemma stream_from_raises:
  assumes "n \<noteq> END" and "map_of (nodes g) n = Some f" and "f rt st = Inl e"
  shows "stream_from (Suc limit) g rt n st = Inl (Raised e)"
  using assms by simp

lemma stream_write_query_raised:
  assumes "write_query rt st None = Inl e"
  shows "stream create_sql_workflow rt st = Inl (Raised e)"
proof -
  have "stream_from (Suc (Suc (Suc (Suc (Suc 20))))) create_sql_workflow rt ''write_query'' st
        = Inl (Raised e)"
    by (rule stream_from_raises [OF names_differ_END(1) node_write_query assms])
  then show ?thesis by (simp only: stream_unfold)
qed


lemma graph_writes:
  assumes "stream create_sql_workflow rt st = Inr (out, final)"
  shows "map (\<lambda>(n, d). (n, keys d)) out
           = [(''write_query'', [''query'']), (''execute_query'', [''result'', ''has_results'']),
              (''generate_answer'', [''answer'']), (''explain_answer'', [''explanation'']),
              (''create_visualization'', [''dataviz_code''])]
         \<or> map (\<lambda>(n, d). (n, keys d)) out
           = [(''write_query'', [''query'']), (''execute_query'', [''result'', ''has_results'']),
              (''handle_no_results'', [''answer''])]"
proof (cases "write_query rt st None")
  case (Inl e)
  with assms stream_write_query_raised show ?thesis by simp
next
  case (Inr d1)
  define d2 where "d2 = execute_query rt (dict_update st d1) None"
  define st2 where "st2 = dict_update (dict_update st d1) d2"
  note run = graph_run [OF Inr d2_def st2_def]
  have k1: "keys d1 = [''query'']" using Inr by (rule keys_write_query)
  have k2: "keys d2 = [''result'', ''has_results'']" unfolding d2_def by (rule keys_execute_query)
  from run have "has_results d2 = Some True \<or> has_results d2 = Some False" by blast
  then show ?thesis
  proof
    assume "has_results d2 = Some True"
    with run obtain d3 d4 d5 where
      d3: "generate_answer rt st2 None = Inr d3"
      and d4: "explain_answer rt (dict_update st2 d3) None = Inr d4"
      and d5: "create_visualization rt (dict_update (dict_update st2 d3) d4) None = Inr d5"
      and s: "stream create_sql_workflow rt st
                 = Inr ([(''write_query'', d1), (''execute_query'', d2),
                         (''generate_answer'', d3), (''explain_answer'', d4),
                         (''create_visualization'', d5)],
                        dict_update (dict_update (dict_update st2 d3) d4) d5)"
      by blast
    from s assms have "out = [(''write_query'', d1), (''execute_query'', d2),
                         (''generate_answer'', d3), (''explain_answer'', d4),
                         (''create_visualization'', d5)]"
      by simp
    then show ?thesis
      using k1 k2 keys_generate_answer [OF d3] keys_explain_answer [OF d4]
            keys_create_visualization [OF d5]
      by simp
  next
    assume "has_results d2 = Some False"
    with run have "stream create_sql_workflow rt st
            = Inr ([(''write_query'', d1), (''execute_query'', d2),
                    (''handle_no_results'', handle_no_results st2)],
                   dict_update st2 (handle_no_results st2))"
      by blast
    with assms have "out = [(''write_query'', d1), (''execute_query'', d2),
                    (''handle_no_results'', handle_no_results st2)]"
      by simp
    then show ?thesis using k1 k2 keys_handle_no_results by simp
  qed
qed


lemma after_Inr:
  assumes "after step name rest = Inr (calls, final)"
  shows "\<exists>d self calls'. step = Inr (d, self) \<and> rest self = Inr (calls', final)
                          \<and> calls = (name, d) # calls'"
  using assms by (auto simp: after_def split: sum.splits prod.splits)

lemma keys_step_write_query:
  "step_write_query rt self = Inr (d, self') \<Longrightarrow> keys d = [''query'']"
  by (auto simp: step_write_query_def merged_def split: sum.splits dest: keys_write_query)

lemma keys_step_execute_query:
  "step_execute_query rt self = Inr (d, self') \<Longrightarrow> keys d = [''result'', ''has_results'']"
  by (auto simp: step_execute_query_def merged_def keys_execute_query)

lemma keys_step_generate_answer:
  "step_generate_answer rt self = Inr (d, self') \<Longrightarrow> keys d = [''answer'']"
  by (auto simp: step_generate_answer_def merged_def split: sum.splits dest: keys_generate_answer)

lemma keys_step_explain_answer:
  "step_explain_answer rt self = Inr (d, self') \<Longrightarrow> keys d = [''explanation'']"
  by (auto simp: step_explain_answer_def merged_def split: sum.splits dest: keys_explain_answer)

lemma keys_step_create_visualization:
  "step_create_visualization rt self = Inr (d, self') \<Longrightarrow> keys d = [''dataviz_code'']"
  by (auto simp: step_create_visualization_def merged_def split: sum.splits
        dest: keys_create_visualization)

lemma keys_step_handle_no_results:
  "step_handle_no_results self = Inr (d, self') \<Longrightarrow> keys d = [''answer'']"
  by (auto simp: step_handle_no_results_def merged_def keys_handle_no_results)

lemma orchestrator_writes:
  assumes "run_chainlit_workflow rt self0 q = Inr (calls, final)"
  shows "map (\<lambda>(n, d). (n, keys d)) calls
           = [(''step_write_query'', [''query'']),
              (''step_execute_query'', [''result'', ''has_results'']),
              (''step_generate_answer'', [''answer'']),
              (''step_explain_answer'', [''explanation'']),
              (''step_create_visualization'', [''dataviz_code''])]
         \<or> map (\<lambda>(n, d). (n, keys d)) calls
           = [(''step_write_query'', [''query'']),
              (''step_execute_query'', [''result'', ''has_results'']),
              (''step_handle_no_results'', [''answer''])]"
proof -
  from after_Inr [OF assms [unfolded run_chainlit_workflow_def]]
  obtain d1 self1 calls1 where
    s1: "step_write_query rt (initialize_state self0 q) = Inr (d1, self1)"
    and r1: "after (step_execute_query rt self1) ''step_execute_query'' (\<lambda>self2.
       if (case has_results (self_state self2) of None \<Rightarrow> False | Some b \<Rightarrow> b)
       then (case result (self_state self2) of
               None \<Rightarrow> Inl (AttributeError (no_attribute ''NoneType'' ''empty''))
             | Some (Text s) \<Rightarrow> Inl (AttributeError (no_attribute ''str'' ''empty''))
             | Some (Table result_df) \<Rightarrow>
                 after (step_generate_answer rt self2) ''step_generate_answer'' (\<lambda>self3.
                 after (step_explain_answer rt self3) ''step_explain_answer'' (\<lambda>self4.
                 after (step_create_visualization rt self4) ''step_create_visualization''
                   (\<lambda>self5. Inr ([], self5)))))
       else after (step_handle_no_results self2) ''step_handle_no_results''
              (\<lambda>self3. Inr ([], self3))) = Inr (calls1, final)"
    and c1: "calls = (''step_write_query'', d1) # calls1"
    by blast
  from after_Inr [OF r1]
  obtain d2 self2 calls2 where
    s2: "step_execute_query rt self1 = Inr (d2, self2)"
    and r2: "(if (case has_results (self_state self2) of None \<Rightarrow> False | Some b \<Rightarrow> b)
       then (case result (self_state self2) of
               None \<Rightarrow> Inl (AttributeError (no_attribute ''NoneType'' ''empty''))
             | Some (Text s) \<Rightarrow> Inl (AttributeError (no_attribute ''str'' ''empty''))
             | Some (Table result_df) \<Rightarrow>
                 after (step_generate_answer rt self2) ''step_generate_answer'' (\<lambda>self3.
                 after (step_explain_answer rt self3) ''step_explain_answer'' (\<lambda>self4.
                 after (step_create_visualization rt self4) ''step_create_visualization''
                   (\<lambda>self5. Inr ([], self5)))))
       else after (step_handle_no_results self2) ''step_handle_no_results''
              (\<lambda>self3. Inr ([], self3))) = Inr (calls2, final)"
    and c2: "calls1 = (''step_execute_query'', d2) # calls2"
    by blast
  note k1 = keys_step_write_query [OF s1]
  note k2 = keys_step_execute_query [OF s2]
  show ?thesis
  proof (cases "case has_results (self_state self2) of None \<Rightarrow> False | Some b \<Rightarrow> b")
    case True
    with r2 have "\<exists>result_df. result (self_state self2) = Some (Table result_df)"
      by (auto split: option.splits result_val.splits)
    with r2 True have r3:
      "after (step_generate_answer rt self2) ''step_generate_answer'' (\<lambda>self3.
       after (step_explain_answer rt self3) ''step_explain_answer'' (\<lambda>self4.
       after (step_create_visualization rt self4) ''step_create_visualization''
         (\<lambda>self5. Inr ([], self5)))) = Inr (calls2, final)"
      by auto
    from after_Inr [OF r3] obtain d3 self3 calls3 where
      s3: "step_generate_answer rt self2 = Inr (d3, self3)"
      and r4: "after (step_explain_answer rt self3) ''step_explain_answer'' (\<lambda>self4.
         after (step_create_visualization rt self4) ''step_create_visualization''
           (\<lambda>self5. Inr ([], self5))) = Inr (calls3, final)"
      and c3: "calls2 = (''step_generate_answer'', d3) # calls3"
      by blast
    from after_Inr [OF r4] obtain d4 self4 calls4 where
      s4: "step_explain_answer rt self3 = Inr (d4, self4)"
      and r5: "after (step_create_visualization rt self4) ''step_create_visualization''
           (\<lambda>self5. Inr ([], self5)) = Inr (calls4, final)"
      and c4: "calls3 = (''step_explain_answer'', d4) # calls4"
      by blast
    from after_Inr [OF r5] obtain d5 self5 calls5 where
      s5: "step_create_visualization rt self4 = Inr (d5, self5)"
      and r6: "Inr ([], self5) = (Inr (calls5, final)
                 :: exn + ((string \<times> GraphState) list \<times> WorkflowOrchestrator))"
      and c5: "calls4 = (''step_create_visualization'', d5) # calls5"
      by blast
    from r6 have "calls5 = []" by simp
    then show ?thesis
      using c1 c2 c3 c4 c5 k1 k2 keys_step_generate_answer [OF s3]
            keys_step_explain_answer [OF s4] keys_step_create_visualization [OF s5]
      by simp
  next
    case False
    with r2 have r3: "after (step_handle_no_results self2) ''step_handle_no_results''
              (\<lambda>self3. Inr ([], self3)) = Inr (calls2, final)"
      by simp
    from after_Inr [OF r3] obtain d3 self3 calls3 where
      s3: "step_handle_no_results self2 = Inr (d3, self3)"
      and r4: "Inr ([], self3) = (Inr (calls3, final)
                 :: exn + ((string \<times> GraphState) list \<times> WorkflowOrchestrator))"
      and c3: "calls2 = (''step_handle_no_results'', d3) # calls3"
      by blast
    from r4 have "calls3 = []" by simp
    then show ?thesis
      using c1 c2 c3 k1 k2 keys_step_handle_no_results [OF s3] by simp
  qed
qed


lemma write_query_returns:
  assumes "llm_or_default rt llm = Inr m"
    and "question st = Some q" and "tables st = Some ts" and "schema st = Some sc"
    and "m write_query_system_prompt
           [(''question'', PStr q), (''tables'', PStr (join [10] ts)), (''schema'', PStr sc)]
         = Inr text"
  shows "write_query rt st llm = Inr (empty_dict\<lparr>query := Some (strip_sql_fence text)\<rparr>)"
  using assms by (simp add: write_query_def write_query_try_def getitem_def)

lemma state_after_execute:
  "\<exists>b. has_results (dict_update st (execute_query rt st db0)) = Some b
       \<and> (b \<longrightarrow> (\<exists>df. result (dict_update st (execute_query rt st db0)) = Some (Table df)))"
proof -
  obtain r b where "execute_query rt st db0
                    = empty_dict\<lparr>result := Some r, has_results := Some b\<rparr>"
    and "b \<longrightarrow> (\<exists>df. r = Table df)"
    using execute_query_shape by blast
  then show ?thesis by (auto simp: dict_update_def override_def)
qed

lemma orchestrator_returns:
  assumes "write_query rt (self_state (initialize_state self0 q)) (Some (self_llm self0)) = Inr d1"
  shows "\<exists>calls final. run_chainlit_workflow rt self0 q = Inr (calls, final)"
proof -
  define self1 where "self1 = snd (merged (initialize_state self0 q) d1)"
  define self2 where
    "self2 = snd (merged self1 (execute_query rt (self_state self1) (Some (self_db self1))))"
  have llm1: "self_llm (initialize_state self0 q) = self_llm self0"
    by (simp add: initialize_state_def)
  have s1: "step_write_query rt (initialize_state self0 q) = Inr (d1, self1)"
    using assms by (simp add: step_write_query_def llm1 self1_def merged_def)
  have s2: "step_execute_query rt self1
            = Inr (execute_query rt (self_state self1) (Some (self_db self1)), self2)"
    by (simp add: step_execute_query_def self2_def merged_def)
  have st2: "self_state self2
             = dict_update (self_state self1)
                 (execute_query rt (self_state self1) (Some (self_db self1)))"
    by (simp add: self2_def merged_def)
  obtain b where b: "has_results (self_state self2) = Some b"
    and t: "b \<longrightarrow> (\<exists>df. result (self_state self2) = Some (Table df))"
    unfolding st2 using state_after_execute by blast
  have total: "\<And>self. \<exists>d self'. step_generate_answer rt self = Inr (d, self')"
    "\<And>self. \<exists>d self'. step_explain_answer rt self = Inr (d, self')"
    "\<And>self. \<exists>d self'. step_create_visualization rt self = Inr (d, self')"
    by (simp_all add: step_generate_answer_def step_explain_answer_def
          step_create_visualization_def generate_answer_def explain_answer_def
          create_visualization_def llm_or_default_def merged_def)
  show ?thesis
  proof (cases b)
    case True
    with t obtain df where df: "result (self_state self2) = Some (Table df)" by blast
    obtain d3 self3 where s3: "step_generate_answer rt self2 = Inr (d3, self3)"
      using total(1) by blast
    obtain d4 self4 where s4: "step_explain_answer rt self3 = Inr (d4, self4)"
      using total(2) by blast
    obtain d5 self5 where s5: "step_create_visualization rt self4 = Inr (d5, self5)"
      using total(3) by blast
    show ?thesis
      by (simp add: run_chainlit_workflow_def after_def s1 s2 b True df s3 s4 s5)
  next
    case False
    show ?thesis
      by (simp add: run_chainlit_workflow_def after_def s1 s2 b False
            step_handle_no_results_def merged_def)
  qed
qed

lemma trace_keys:
  "map (\<lambda>(n, d). keys d) out = map snd (map (\<lambda>(n, d). (n, keys d)) out)"
  "fst ` set out = set (map fst (map (\<lambda>(n, d). (n, keys d)) out))"
  by (auto simp: case_prod_beta image_iff)

text \<open>
  C8. In a run, whether of the compiled graph or of the orchestrator, no key is written
  twice: the keys of the dictionaries the stages return, taken in the order the stages
  run, are all different. The two stages that write \<open>answer\<close> never run in the same run.
\<close>

theorem fields_written_at_most_once:
  "(stream create_sql_workflow rt st = Inr (out, final) \<longrightarrow>
      distinct (concat (map (\<lambda>(n, d). keys d) out))
      \<and> \<not> (''generate_answer'' \<in> fst ` set out \<and> ''handle_no_results'' \<in> fst ` set out))
   \<and> (run_chainlit_workflow rt self0 q = Inr (calls, final') \<longrightarrow>
      distinct (concat (map (\<lambda>(n, d). keys d) calls))
      \<and> \<not> (''step_generate_answer'' \<in> fst ` set calls
           \<and> ''step_handle_no_results'' \<in> fst ` set calls))"
proof (intro conjI impI)
  assume "stream create_sql_workflow rt st = Inr (out, final)"
  from graph_writes [OF this]
  show "distinct (concat (map (\<lambda>(n, d). keys d) out))"
    by (rule disjE) (simp_all only: trace_keys, simp_all)
next
  assume "stream create_sql_workflow rt st = Inr (out, final)"
  from graph_writes [OF this]
  show "\<not> (''generate_answer'' \<in> fst ` set out \<and> ''handle_no_results'' \<in> fst ` set out)"
    by (rule disjE) (simp_all only: trace_keys, simp_all)
next
  assume "run_chainlit_workflow rt self0 q = Inr (calls, final')"
  from orchestrator_writes [OF this]
  show "distinct (concat (map (\<lambda>(n, d). keys d) calls))"
    by (rule disjE) (simp_all only: trace_keys, simp_all)
next
  assume "run_chainlit_workflow rt self0 q = Inr (calls, final')"
  from orchestrator_writes [OF this]
  show "\<not> (''step_generate_answer'' \<in> fst ` set calls
           \<and> ''step_handle_no_results'' \<in> fst ` set calls)"
    by (rule disjE) (simp_all only: trace_keys, simp_all)
qed


lemma mock_stream_returns:
  "\<exists>out final.
     stream create_sql_workflow (test_runtime (mock_llm (Inr (lit ''SELECT 1''))) db n) test_state
     = Inr (out, final)"
  using graph_run [OF mock_write_query refl refl, of db n] by blast

lemma mock_orchestrator_returns:
  "\<exists>calls final.
     run_chainlit_workflow (test_runtime m db n)
       \<lparr>self_llm = mock_llm (Inr (lit ''SELECT 1'')), self_db = db, self_state = empty_dict\<rparr>
       (lit ''Test question'')
     = Inr (calls, final)"
proof (rule orchestrator_returns)
  show "write_query (test_runtime m db n)
          (self_state (initialize_state
             \<lparr>self_llm = mock_llm (Inr (lit ''SELECT 1'')), self_db = db, self_state = empty_dict\<rparr>
             (lit ''Test question'')))
          (Some (self_llm
             \<lparr>self_llm = mock_llm (Inr (lit ''SELECT 1'')), self_db = db, self_state = empty_dict\<rparr>))
        = Inr (empty_dict\<lparr>query := Some (strip_sql_fence (lit ''SELECT 1''))\<rparr>)"
    by (rule write_query_returns [where q = "lit ''Test question''" and ts = "get_tables db"
          and sc = "get_schemas db"])
       (simp_all add: llm_or_default_def initialize_state_def mock_llm_def)
qed

theorem fields_written_at_most_once_witness:
  "(\<exists>out final.
      stream create_sql_workflow
        (test_runtime (mock_llm (Inr (lit ''SELECT 1''))) (mock_db (Inr count_table)) 0) test_state
      = Inr (out, final)
      \<and> distinct (concat (map (\<lambda>(n, d). keys d) out)))
   \<and> (\<exists>calls final.
      run_chainlit_workflow
        (test_runtime (mock_llm (Inr (lit ''SELECT 1''))) (mock_db (Inr count_table)) 0)
        \<lparr>self_llm = mock_llm (Inr (lit ''SELECT 1'')), self_db = mock_db (Inr count_table),
         self_state = empty_dict\<rparr>
        (lit ''Test question'')
      = Inr (calls, final)
      \<and> distinct (concat (map (\<lambda>(n, d). keys d) calls)))"
proof
  obtain out final where
    s: "stream create_sql_workflow
          (test_runtime (mock_llm (Inr (lit ''SELECT 1''))) (mock_db (Inr count_table)) 0) test_state
        = Inr (out, final)"
    using mock_stream_returns by blast
  with fields_written_at_most_once
         [of "test_runtime (mock_llm (Inr (lit ''SELECT 1''))) (mock_db (Inr count_table)) 0"
             test_state out final]
  have "distinct (concat (map (\<lambda>(n, d). keys d) out))" by blast
  with s show "\<exists>out final.
      stream create_sql_workflow
        (test_runtime (mock_llm (Inr (lit ''SELECT 1''))) (mock_db (Inr count_table)) 0) test_state
      = Inr (out, final)
      \<and> distinct (concat (map (\<lambda>(n, d). keys d) out))"
    by blast
next
  obtain calls final where
    r: "run_chainlit_workflow
        (test_runtime (mock_llm (Inr (lit ''SELECT 1''))) (mock_db (Inr count_table)) 0)
        \<lparr>self_llm = mock_llm (Inr (lit ''SELECT 1'')), self_db = mock_db (Inr count_table),
         self_state = empty_dict\<rparr>
        (lit ''Test question'')
      = Inr (calls, final)"
    using mock_orchestrator_returns by blast
  with fields_written_at_most_once
         [where rt = "test_runtime (mock_llm (Inr (lit ''SELECT 1''))) (mock_db (Inr count_table)) 0"
            and ?self0.0 = "\<lparr>self_llm = mock_llm (Inr (lit ''SELECT 1'')),
                             self_db = mock_db (Inr count_table), self_state = empty_dict\<rparr>"
            and q = "lit ''Test question''" and calls = calls and final' = final]
  have "distinct (concat (map (\<lambda>(n, d). keys d) calls))" by blast
  with r show "\<exists>calls final.
      run_chainlit_workflow
        (test_runtime (mock_llm (Inr (lit ''SELECT 1''))) (mock_db (Inr count_table)) 0)
        \<lparr>self_llm = mock_llm (Inr (lit ''SELECT 1'')), self_db = mock_db (Inr count_table),
         self_state = empty_dict\<rparr>
        (lit ''Test question'')
      = Inr (calls, final)
      \<and> distinct (concat (map (\<lambda>(n, d). keys d) calls))"
    by blast
qed

section \<open>The chart renderer collects and closes\<close>













end
